theory Spec2Isabelle
  imports Main
begin

section \<open>Python values met by the normalizers\<close>

text \<open>
  The normalizers of \<^verbatim>\<open>app.py\<close> receive whatever \<^verbatim>\<open>json.loads\<close> returned for the text of
  the language model, so the values they inspect are the seven kinds of JSON value. A Python
  \<^verbatim>\<open>str\<close> is a sequence of code points; the model carries the code points below 256,
  one per \<^typ>\<open>char\<close>. A \<^verbatim>\<open>dict\<close> is an association list in insertion order whose
  first binding of a key is the dict's binding (a dict has no second one).

  A \<^verbatim>\<open>float\<close> is carried by the decimal form that \<^verbatim>\<open>repr\<close> prints: a sign, the
  shortest digit string that reads back as the same double, and the position of the decimal
  point relative to the start of that digit string (\<open>0.d\<^sub>1d\<^sub>2\<dots> \<times> 10\<^sup>p\<close>), or an infinity, or
  not-a-number. The program never computes with a float; it only tests it for truth and prints
  it.
\<close>

datatype pyfloat = PyFinite bool "nat list" int | PyInf bool | PyNaN

datatype json =
    JNull
  | JBool bool
  | JInt int
  | JFloat pyfloat
  | JStr string
  | JList "json list"
  | JDict "(string \<times> json) list"

type_synonym dict = "(string \<times> json) list"

text \<open>
  The exceptions that reach the \<^verbatim>\<open>except Exception\<close> of the two generation endpoints.
  \<open>CallError\<close> stands for whatever \<^verbatim>\<open>_gemini_json\<close> raised (configuration, network,
  \<^verbatim>\<open>json.loads\<close>), with its message.
\<close>

datatype error = AttributeError | TypeError | ValueError | ValidationError | CallError string

subsection \<open>Strings\<close>

definition py_isspace :: "char \<Rightarrow> bool" where
  "py_isspace c =
     (let n = (of_char c :: nat)
      in (9 \<le> n \<and> n \<le> 13) \<or> (28 \<le> n \<and> n \<le> 32) \<or> n = 133 \<or> n = 160)"

definition py_strip :: "string \<Rightarrow> string" where
  "py_strip s = rev (dropWhile py_isspace (rev (dropWhile py_isspace s)))"

definition lower_char :: "char \<Rightarrow> char" where
  "lower_char c =
     (let n = (of_char c :: nat)
      in if (65 \<le> n \<and> n \<le> 90) \<or> (192 \<le> n \<and> n \<le> 222 \<and> n \<noteq> 215)
         then char_of (n + 32) else c)"

definition py_lower :: "string \<Rightarrow> string" where
  "py_lower s = map lower_char s"

text \<open>\<^verbatim>\<open>k in t\<close> on two strings: \<open>k\<close> occurs in \<open>t\<close> as a contiguous block.\<close>

fun is_prefix :: "string \<Rightarrow> string \<Rightarrow> bool" where
  "is_prefix [] t = True"
| "is_prefix (k # ks) [] = False"
| "is_prefix (k # ks) (c # cs) = (k = c \<and> is_prefix ks cs)"

fun py_in :: "string \<Rightarrow> string \<Rightarrow> bool" where
  "py_in k [] = (k = [])"
| "py_in k (c # cs) = (is_prefix k (c # cs) \<or> py_in k cs)"

text \<open>\<^verbatim>\<open>sep.join(xs)\<close>.\<close>

fun py_join :: "string \<Rightarrow> string list \<Rightarrow> string" where
  "py_join sep [] = []"
| "py_join sep [x] = x"
| "py_join sep (x # y # ys) = x @ sep @ py_join sep (y # ys)"

subsection \<open>Printing integers\<close>

definition digit_char :: "nat \<Rightarrow> char" where
  "digit_char d = char_of (48 + d)"

fun nat_digits :: "nat \<Rightarrow> string" where
  "nat_digits n =
     (if n < 10 then [digit_char n] else nat_digits (n div 10) @ [digit_char (n mod 10)])"

declare nat_digits.simps [simp del]

definition int_str :: "int \<Rightarrow> string" where
  "int_str i = (if i < 0 then CHR ''-'' # nat_digits (nat (- i)) else nat_digits (nat i))"

text \<open>\<^verbatim>\<open>f"{n:03d}"\<close>: the decimal digits, filled with zeros on the left up to three places.\<close>

definition fmt_03d :: "nat \<Rightarrow> string" where
  "fmt_03d n = (let ds = nat_digits n in replicate (3 - length ds) CHR ''0'' @ ds)"

subsection \<open>Printing floats\<close>

text \<open>
  \<^verbatim>\<open>repr\<close> of a float prints in exponent notation when the decimal point lies more than
  16 places right of the first digit or 4 or more places left of it, and otherwise in fixed
  notation, where a value without fraction gets \<^verbatim>\<open>.0\<close> appended.
\<close>

definition exp_str :: "int \<Rightarrow> string" where
  "exp_str e =
     (let ds = nat_digits (nat \<bar>e\<bar>)
      in (if e < 0 then CHR ''-'' else CHR ''+'') # replicate (2 - length ds) CHR ''0'' @ ds)"

definition float_digits :: "bool \<Rightarrow> nat list \<Rightarrow> int \<Rightarrow> string" where
  "float_digits neg ds p =
     (let cs = map digit_char ds; k = int (length cs)
      in (if neg then ''-'' else '''') @
         (if p \<le> - 4 \<or> 16 < p then
            take 1 cs @ (if 1 < length cs then CHR ''.'' # drop 1 cs else []) @
            CHR ''e'' # exp_str (p - 1)
          else if p \<le> 0 then ''0.'' @ replicate (nat (- p)) CHR ''0'' @ cs
          else if k \<le> p then cs @ replicate (nat (p - k)) CHR ''0'' @ ''.0''
          else take (nat p) cs @ CHR ''.'' # drop (nat p) cs))"

fun float_str :: "pyfloat \<Rightarrow> string" where
  "float_str (PyFinite neg ds p) = float_digits neg ds p"
| "float_str (PyInf neg) = (if neg then ''-inf'' else ''inf'')"
| "float_str PyNaN = ''nan''"

subsection \<open>Printing strings and containers\<close>

definition hex_char :: "nat \<Rightarrow> char" where
  "hex_char d = (if d < 10 then char_of (48 + d) else char_of (87 + d))"

definition py_isprintable :: "char \<Rightarrow> bool" where
  "py_isprintable c =
     (let n = (of_char c :: nat) in (32 \<le> n \<and> n < 127) \<or> (161 \<le> n \<and> n \<noteq> 173))"

definition repr_char :: "char \<Rightarrow> char \<Rightarrow> string" where
  "repr_char q c =
     (if c = q \<or> c = CHR 0x5C then [CHR 0x5C, c]
      else if c = CHR 0x09 then [CHR 0x5C, CHR ''t'']
      else if c = CHR 0x0A then [CHR 0x5C, CHR ''n'']
      else if c = CHR 0x0D then [CHR 0x5C, CHR ''r'']
      else if py_isprintable c then [c]
      else [CHR 0x5C, CHR ''x'', hex_char (of_char c div 16), hex_char (of_char c mod 16)])"

definition str_repr :: "string \<Rightarrow> string" where
  "str_repr s =
     (let q = (if CHR 0x27 \<in> set s \<and> CHR 0x22 \<notin> set s then CHR 0x22 else CHR 0x27)
      in q # concat (map (repr_char q) s) @ [q])"

primrec py_repr :: "json \<Rightarrow> string" where
  "py_repr JNull = ''None''"
| "py_repr (JBool b) = (if b then ''True'' else ''False'')"
| "py_repr (JInt i) = int_str i"
| "py_repr (JFloat f) = float_str f"
| "py_repr (JStr s) = str_repr s"
| "py_repr (JList xs) = ''['' @ py_join '', '' (map py_repr xs) @ '']''"
| "py_repr (JDict kvs) =
     ''{'' @ py_join '', '' (map (\<lambda>kv. str_repr (fst kv) @ '': '' @ snd kv) (map (map_prod id py_repr) kvs)) @ ''}''"

text \<open>\<^verbatim>\<open>str(v)\<close>: a string is itself, everything else prints as its \<^verbatim>\<open>repr\<close>.\<close>

definition py_str :: "json \<Rightarrow> string" where
  "py_str v = (case v of JStr s \<Rightarrow> s | _ \<Rightarrow> py_repr v)"

subsection \<open>Truth, \<^verbatim>\<open>or\<close>, \<^verbatim>\<open>dict.get\<close>\<close>

fun truthy :: "json \<Rightarrow> bool" where
  "truthy JNull = False"
| "truthy (JBool b) = b"
| "truthy (JInt i) = (i \<noteq> 0)"
| "truthy (JFloat (PyFinite neg ds p)) = (\<not> list_all (\<lambda>d. d = 0) ds)"
| "truthy (JFloat f) = True"
| "truthy (JStr s) = (s \<noteq> [])"
| "truthy (JList xs) = (xs \<noteq> [])"
| "truthy (JDict kvs) = (kvs \<noteq> [])"

text \<open>\<^verbatim>\<open>a or b\<close>.\<close>

definition py_or :: "json \<Rightarrow> json \<Rightarrow> json" where
  "py_or a b = (if truthy a then a else b)"

text \<open>\<^verbatim>\<open>d.get(k)\<close>: the value bound to \<open>k\<close>, or \<^verbatim>\<open>None\<close>.\<close>

definition dget :: "dict \<Rightarrow> string \<Rightarrow> json" where
  "dget d k = (case map_of d k of None \<Rightarrow> JNull | Some v \<Rightarrow> v)"

text \<open>\<^verbatim>\<open>d[k] = v\<close>: an existing key keeps its place, a new key goes last.\<close>

fun dset :: "dict \<Rightarrow> string \<Rightarrow> json \<Rightarrow> dict" where
  "dset [] k v = [(k, v)]"
| "dset ((k', v') # d) k v = (if k' = k then (k, v) # d else (k', v') # dset d k v)"

subsection \<open>\<^verbatim>\<open>int(text)\<close>\<close>

text \<open>
  \<^verbatim>\<open>int\<close> of a string accepts, between optional blanks, an optional sign and then decimal
  digits in groups separated by single underscores; anything else is a \<^verbatim>\<open>ValueError\<close>,
  and so is a literal of more than 4300 digits (the interpreter's default limit on the
  conversion).
\<close>

definition is_digit :: "char \<Rightarrow> bool" where
  "is_digit c = (let n = (of_char c :: nat) in 48 \<le> n \<and> n \<le> 57)"

definition digit_val :: "char \<Rightarrow> int" where
  "digit_val c = int (of_char c - 48)"

fun digits_ok :: "bool \<Rightarrow> string \<Rightarrow> bool" where
  "digits_ok prev [] = prev"
| "digits_ok prev (c # cs) =
     (if is_digit c then digits_ok True cs
      else if c = CHR ''_'' \<and> prev then digits_ok False cs
      else False)"

definition digits_value :: "string \<Rightarrow> int" where
  "digits_value ds = foldl (\<lambda>a c. 10 * a + digit_val c) 0 ds"

definition max_str_digits :: int where
  "max_str_digits = 4300"

definition py_int :: "string \<Rightarrow> error + int" where
  "py_int text =
     (let s = py_strip text;
          neg = (case s of c # r \<Rightarrow> c = CHR ''-'' | [] \<Rightarrow> False);
          body = (case s of c # r \<Rightarrow> if c = CHR ''-'' \<or> c = CHR ''+'' then r else s | [] \<Rightarrow> s);
          ds = filter is_digit body
      in if digits_ok False body \<and> int (length ds) \<le> max_str_digits
         then Inr ((if neg then - 1 else 1) * digits_value ds)
         else Inl ValueError)"

section \<open>Story points\<close>

text \<open>
  \<^verbatim>\<open>_FIB_ALLOWED = [1, 2, 3, 5, 8, 13]\<close> and
  \<^verbatim>\<open>min(_FIB_ALLOWED, key=lambda v: (abs(v - n), v))\<close>: \<^verbatim>\<open>min\<close> keeps the first element
  whose key is least, comparing the key pairs lexicographically.
\<close>

definition FIB_ALLOWED :: "int list" where
  "FIB_ALLOWED = [1, 2, 3, 5, 8, 13]"

definition fib_key :: "int \<Rightarrow> int \<Rightarrow> int \<times> int" where
  "fib_key n v = (\<bar>v - n\<bar>, v)"

definition key_less :: "int \<times> int \<Rightarrow> int \<times> int \<Rightarrow> bool" where
  "key_less a b = (fst a < fst b \<or> (fst a = fst b \<and> snd a < snd b))"

fun min_by :: "int \<Rightarrow> int \<Rightarrow> int list \<Rightarrow> int" where
  "min_by n best [] = best"
| "min_by n best (v # vs) =
     (if key_less (fib_key n v) (fib_key n best) then min_by n v vs else min_by n best vs)"

definition nearest_fib :: "int \<Rightarrow> int" where
  "nearest_fib n = min_by n (hd FIB_ALLOWED) (tl FIB_ALLOWED)"

text \<open>\<^verbatim>\<open>_to_fib\<close>.\<close>

definition to_fib :: "json \<Rightarrow> int" where
  "to_fib v = (case py_int (py_strip (py_str v)) of Inl e \<Rightarrow> 3 | Inr n \<Rightarrow> nearest_fib n)"

section \<open>The schema\<close>

text \<open>
  The classes of \<^verbatim>\<open>schema.py\<close>. Field names carry the class as a prefix, since several
  classes share \<^verbatim>\<open>id\<close>, \<^verbatim>\<open>title\<close> and \<^verbatim>\<open>description\<close>; an \<^verbatim>\<open>Optional[str]\<close> is a
  \<^typ>\<open>string option\<close>.
\<close>

record GivenWhenThen =
  gwt_given :: string
  gwt_when :: string
  gwt_then :: string

record StoryDescription =
  asA :: string
  iWant :: string
  soThat :: string

record Story =
  story_id :: "string option"
  story_featureId :: "string option"
  story_title :: string
  story_description :: StoryDescription
  story_acceptanceCriteria :: "GivenWhenThen list"
  story_storyPoints :: int

record TestCase =
  tc_id :: string
  tc_storyId :: string
  tc_preconditions :: string
  tc_steps :: "string list"
  tc_expected :: string

record Feature =
  feature_id :: string
  feature_key :: "string option"
  feature_title :: string
  feature_description :: "string option"

subsection \<open>Validation\<close>

text \<open>
  \<^verbatim>\<open>Story(**ns)\<close> and \<^verbatim>\<open>TestCase(**t)\<close>: a \<^verbatim>\<open>str\<close> field takes a string and nothing
  else, an optional field also \<^verbatim>\<open>None\<close> or absence, a nested model takes a mapping,
  \<^verbatim>\<open>Literal[1,2,3,5,8,13]\<close> takes one of these integers, and keys the class does not
  declare are ignored. Any failure is one \<^verbatim>\<open>ValidationError\<close>.
\<close>

definition bind_err :: "error + 'a \<Rightarrow> ('a \<Rightarrow> error + 'b) \<Rightarrow> error + 'b" where
  "bind_err m f = (case m of Inl e \<Rightarrow> Inl e | Inr x \<Rightarrow> f x)"

fun map_err :: "('a \<Rightarrow> error + 'b) \<Rightarrow> 'a list \<Rightarrow> error + 'b list" where
  "map_err f [] = Inr []"
| "map_err f (x # xs) =
     (case f x of Inl e \<Rightarrow> Inl e
      | Inr y \<Rightarrow> (case map_err f xs of Inl e \<Rightarrow> Inl e | Inr ys \<Rightarrow> Inr (y # ys)))"

definition req_str :: "json \<Rightarrow> error + string" where
  "req_str v = (case v of JStr s \<Rightarrow> Inr s | _ \<Rightarrow> Inl ValidationError)"

definition opt_str :: "json \<Rightarrow> error + string option" where
  "opt_str v = (case v of JNull \<Rightarrow> Inr None | JStr s \<Rightarrow> Inr (Some s) | _ \<Rightarrow> Inl ValidationError)"

definition validate_gwt :: "json \<Rightarrow> error + GivenWhenThen" where
  "validate_gwt v =
     (case v of
        JDict d \<Rightarrow>
          bind_err (req_str (dget d ''given'')) (\<lambda>g.
          bind_err (req_str (dget d ''when'')) (\<lambda>w.
          bind_err (req_str (dget d ''then'')) (\<lambda>t.
          Inr \<lparr>gwt_given = g, gwt_when = w, gwt_then = t\<rparr>)))
      | _ \<Rightarrow> Inl ValidationError)"

definition validate_description :: "json \<Rightarrow> error + StoryDescription" where
  "validate_description v =
     (case v of
        JDict d \<Rightarrow>
          bind_err (req_str (dget d ''asA'')) (\<lambda>a.
          bind_err (req_str (dget d ''iWant'')) (\<lambda>i.
          bind_err (req_str (dget d ''soThat'')) (\<lambda>s.
          Inr \<lparr>asA = a, iWant = i, soThat = s\<rparr>)))
      | _ \<Rightarrow> Inl ValidationError)"

definition validate_points :: "json \<Rightarrow> error + int" where
  "validate_points v =
     (case v of
        JInt n \<Rightarrow> if n \<in> set [1, 2, 3, 5, 8, 13] then Inr n else Inl ValidationError
      | _ \<Rightarrow> Inl ValidationError)"

definition validate_story :: "dict \<Rightarrow> error + Story" where
  "validate_story ns =
     bind_err (opt_str (dget ns ''id'')) (\<lambda>i.
     bind_err (opt_str (dget ns ''featureId'')) (\<lambda>f.
     bind_err (req_str (dget ns ''title'')) (\<lambda>t.
     bind_err (validate_description (dget ns ''description'')) (\<lambda>d.
     bind_err (case dget ns ''acceptanceCriteria'' of
                 JList xs \<Rightarrow> map_err validate_gwt xs
               | _ \<Rightarrow> Inl ValidationError) (\<lambda>ac.
     bind_err (validate_points (dget ns ''storyPoints'')) (\<lambda>p.
     Inr \<lparr>story_id = i, story_featureId = f, story_title = t, story_description = d,
          story_acceptanceCriteria = ac, story_storyPoints = p\<rparr>))))))"

definition validate_testcase :: "dict \<Rightarrow> error + TestCase" where
  "validate_testcase t =
     bind_err (req_str (dget t ''id'')) (\<lambda>i.
     bind_err (req_str (dget t ''storyId'')) (\<lambda>s.
     bind_err (req_str (dget t ''preconditions'')) (\<lambda>p.
     bind_err (case dget t ''steps'' of
                 JList xs \<Rightarrow> map_err req_str xs
               | _ \<Rightarrow> Inl ValidationError) (\<lambda>st.
     bind_err (req_str (dget t ''expected'')) (\<lambda>e.
     Inr \<lparr>tc_id = i, tc_storyId = s, tc_preconditions = p, tc_steps = st,
          tc_expected = e\<rparr>)))))"

text \<open>
  Building a \<^verbatim>\<open>Story\<close> from keyword arguments that are strings already, as the baseline
  generator does, can only fail on the story points.
\<close>

definition mk_Story :: "Story \<Rightarrow> error + Story" where
  "mk_Story s =
     (if story_storyPoints s \<in> set [1, 2, 3, 5, 8, 13] then Inr s else Inl ValidationError)"

subsection \<open>\<^verbatim>\<open>model_dump\<close>\<close>

definition opt_json :: "string option \<Rightarrow> json" where
  "opt_json x = (case x of None \<Rightarrow> JNull | Some s \<Rightarrow> JStr s)"

definition gwt_dump :: "GivenWhenThen \<Rightarrow> json" where
  "gwt_dump g =
     JDict [(''given'', JStr (gwt_given g)), (''when'', JStr (gwt_when g)),
            (''then'', JStr (gwt_then g))]"

definition description_dump :: "StoryDescription \<Rightarrow> json" where
  "description_dump d =
     JDict [(''asA'', JStr (asA d)), (''iWant'', JStr (iWant d)), (''soThat'', JStr (soThat d))]"

definition story_dump :: "Story \<Rightarrow> dict" where
  "story_dump s =
     [(''id'', opt_json (story_id s)),
      (''featureId'', opt_json (story_featureId s)),
      (''title'', JStr (story_title s)),
      (''description'', description_dump (story_description s)),
      (''acceptanceCriteria'', JList (map gwt_dump (story_acceptanceCriteria s))),
      (''storyPoints'', JInt (story_storyPoints s))]"

definition testcase_dump :: "TestCase \<Rightarrow> dict" where
  "testcase_dump t =
     [(''id'', JStr (tc_id t)),
      (''storyId'', JStr (tc_storyId t)),
      (''preconditions'', JStr (tc_preconditions t)),
      (''steps'', JList (map JStr (tc_steps t))),
      (''expected'', JStr (tc_expected t))]"

section \<open>\<^verbatim>\<open>dict(x or {})\<close>\<close>

text \<open>
  Both normalizers start with \<^verbatim>\<open>dict(x or {})\<close>. A falsy \<open>x\<close> gives the empty dict and a
  dict is copied. A non-empty list is read as a sequence of key/value pairs: each element
  must be an iterable of exactly two items (a two-element list, a two-character string, a
  dict of two keys) or the call raises, and the key must be hashable. A key that is not a
  string can never be read or written by the normalizers, which use string keys only, so
  the model keeps the string-keyed entries and one flag telling whether such a key is
  present (it matters when the dict is expanded into keyword arguments).
\<close>

fun pair_of :: "json \<Rightarrow> error + json \<times> json" where
  "pair_of (JList [k, v]) = Inr (k, v)"
| "pair_of (JList xs) = Inl ValueError"
| "pair_of (JStr [a, b]) = Inr (JStr [a], JStr [b])"
| "pair_of (JStr s) = Inl ValueError"
| "pair_of (JDict [ka, kb]) = Inr (JStr (fst ka), JStr (fst kb))"
| "pair_of (JDict d) = Inl ValueError"
| "pair_of v = Inl TypeError"

fun dict_pairs :: "dict \<times> bool \<Rightarrow> json list \<Rightarrow> error + dict \<times> bool" where
  "dict_pairs acc [] = Inr acc"
| "dict_pairs acc (x # xs) =
     (case pair_of x of
        Inl e \<Rightarrow> Inl e
      | Inr kv \<Rightarrow>
          (case fst kv of
             JStr k \<Rightarrow> dict_pairs (dset (fst acc) k (snd kv), snd acc) xs
           | JList ys \<Rightarrow> Inl TypeError
           | JDict d \<Rightarrow> Inl TypeError
           | _ \<Rightarrow> dict_pairs (fst acc, True) xs))"

definition py_dict :: "json \<Rightarrow> error + dict \<times> bool" where
  "py_dict x =
     (if \<not> truthy x then Inr ([], False)
      else case x of
             JDict d \<Rightarrow> Inr (d, False)
           | JList xs \<Rightarrow> dict_pairs ([], False) xs
           | JStr s \<Rightarrow> Inl ValueError
           | _ \<Rightarrow> Inl TypeError)"

section \<open>The story normalizer\<close>

text \<open>\<^verbatim>\<open>a or b or \<dots> or last\<close>: the first truthy operand, or the last one.\<close>

definition or_chain :: "json list \<Rightarrow> json \<Rightarrow> json" where
  "or_chain xs dflt = foldr py_or xs dflt"

text \<open>\<^verbatim>\<open>v.strip()\<close> on a value that may not be a string: only \<^verbatim>\<open>str\<close> has the method.\<close>

definition strip_method :: "json \<Rightarrow> error + string" where
  "strip_method v = (case v of JStr s \<Rightarrow> Inr (py_strip s) | _ \<Rightarrow> Inl AttributeError)"

text \<open>\<^verbatim>\<open>getattr(feature_fallback, name, default)\<close>, the fallback being a Feature or \<^verbatim>\<open>None\<close>.\<close>

definition getattr :: "Feature option \<Rightarrow> (Feature \<Rightarrow> json) \<Rightarrow> json \<Rightarrow> json" where
  "getattr ff field dflt = (case ff of None \<Rightarrow> dflt | Some f \<Rightarrow> field f)"

definition attr_id :: "Feature \<Rightarrow> json" where
  "attr_id f = JStr (feature_id f)"

definition attr_key :: "Feature \<Rightarrow> json" where
  "attr_key f = opt_json (feature_key f)"

definition attr_title :: "Feature \<Rightarrow> json" where
  "attr_title f = JStr (feature_title f)"

text \<open>\<^verbatim>\<open>_normalize_gwt\<close>.\<close>

definition normalize_gwt :: "json \<Rightarrow> dict" where
  "normalize_gwt item =
     (let d = (case item of JDict d \<Rightarrow> d | _ \<Rightarrow> []);
          given = or_chain (map (dget d) [''given'', ''Given'', ''precondition'', ''context'']) (JStr []);
          when = or_chain (map (dget d) [''when'', ''When'', ''action'', ''event'']) (JStr []);
          then' = or_chain (map (dget d) [''then'', ''Then'', ''outcome'', ''result'']) (JStr [])
      in [(''given'', JStr (py_strip (py_str given))),
          (''when'', JStr (py_strip (py_str when))),
          (''then'', JStr (py_strip (py_str then')))])"

text \<open>The sections of \<^verbatim>\<open>_normalize_story\<close>, in the order of the source.\<close>

definition story_feature_id :: "dict \<Rightarrow> Feature option \<Rightarrow> json" where
  "story_feature_id s ff =
     or_chain [dget s ''featureId'', getattr ff attr_id JNull, getattr ff attr_key JNull,
               getattr ff attr_title JNull] (JStr ''F'')"

definition story_title_of :: "dict \<Rightarrow> Feature option \<Rightarrow> error + string" where
  "story_title_of s ff =
     bind_err (strip_method (py_or (dget s ''title'') (JStr []))) (\<lambda>title.
       if title = [] then
         Inr (py_strip (''Implement '' @ py_str (py_or (getattr ff attr_title (JStr [])) (JStr ''feature''))))
       else Inr title)"

definition story_description_of :: "dict \<Rightarrow> Feature option \<Rightarrow> error + dict" where
  "story_description_of s ff =
     (case dget s ''description'' of
        JDict desc \<Rightarrow>
          bind_err (strip_method (or_chain [dget desc ''asA'', dget desc ''role''] (JStr ''end-user''))) (\<lambda>a.
          bind_err (strip_method (or_chain [dget desc ''iWant'', dget desc ''goal'',
                                            getattr ff attr_title (JStr [])] (JStr ''use the feature''))) (\<lambda>i.
          bind_err (strip_method (or_chain [dget desc ''soThat'', dget desc ''why''] (JStr ''I get value quickly''))) (\<lambda>t.
          Inr [(''asA'', JStr a), (''iWant'', JStr i), (''soThat'', JStr t)])))
      | _ \<Rightarrow>
          Inr [(''asA'', JStr ''end-user''),
               (''iWant'', py_or (getattr ff attr_title (JStr [])) (JStr ''use the feature'')),
               (''soThat'', JStr ''I get value quickly'')])"

definition default_criteria :: "Feature option \<Rightarrow> dict list" where
  "default_criteria ff =
     (let ft = py_str (py_or (getattr ff attr_title (JStr [])) (JStr ''the feature''))
      in [normalize_gwt (JDict [(''given'', JStr ''valid input''),
                                (''when'', JStr (''I use '' @ py_lower ft)),
                                (''then'', JStr ''the system completes successfully'')]),
          normalize_gwt (JDict [(''given'', JStr ''invalid input''),
                                (''when'', JStr (''I use '' @ py_lower ft)),
                                (''then'', JStr ''a clear validation message is shown'')])])"

definition story_criteria :: "dict \<Rightarrow> Feature option \<Rightarrow> dict list" where
  "story_criteria s ff =
     (let ac = or_chain [dget s ''acceptanceCriteria'', dget s ''acceptance_criteria'', dget s ''AC'']
                 (JList []);
          ac1 = (case ac of JDict d \<Rightarrow> JList [ac] | _ \<Rightarrow> ac);
          ac2 = (case ac1 of JList xs \<Rightarrow> xs | _ \<Rightarrow> []);
          ac_norm = map normalize_gwt (filter (\<lambda>x. x \<noteq> JNull) ac2)
      in if ac_norm = [] then default_criteria ff else ac_norm)"

text \<open>\<^verbatim>\<open>_normalize_story\<close>.\<close>

definition normalize_story :: "json \<Rightarrow> Feature option \<Rightarrow> error + dict" where
  "normalize_story s0 ff =
     bind_err (py_dict s0) (\<lambda>sd.
       let s = fst sd;
           feature_id = story_feature_id s ff
       in bind_err (story_title_of s ff) (\<lambda>title.
          bind_err (story_description_of s ff) (\<lambda>description.
            let ac_norm = story_criteria s ff;
                sp = to_fib (dget s ''storyPoints'');
                fid = py_strip (py_str feature_id)
            in Inr [(''featureId'', JStr (if fid = [] then ''F'' else fid)),
                    (''title'', JStr title),
                    (''description'', JDict description),
                    (''acceptanceCriteria'', JList (map JDict ac_norm)),
                    (''storyPoints'', JInt sp)])))"

section \<open>The test-case normalizer\<close>

text \<open>
  The second \<^verbatim>\<open>_normalize_testcase\<close> of \<^verbatim>\<open>app.py\<close>, which replaces the first when the
  module is loaded. The fallback story id is \<^verbatim>\<open>stories[0].id\<close>, an optional string.
\<close>

definition clean_strs :: "json list \<Rightarrow> string list" where
  "clean_strs xs =
     map (\<lambda>x. py_strip (py_str x)) (filter (\<lambda>x. x \<noteq> JNull \<and> py_strip (py_str x) \<noteq> []) xs)"

definition testcase_steps :: "dict \<Rightarrow> string list" where
  "testcase_steps t =
     (let steps = dget t ''steps'';
          steps1 = (case steps of JStr s \<Rightarrow> [steps] | JList xs \<Rightarrow> xs | _ \<Rightarrow> [])
      in clean_strs steps1)"

definition testcase_expected :: "dict \<Rightarrow> string" where
  "testcase_expected t =
     (let exp = dget t ''expected'';
          exp1 = (case exp of JList xs \<Rightarrow> JStr (py_join '' '' (clean_strs xs))
                  | JNull \<Rightarrow> JStr []
                  | _ \<Rightarrow> exp)
      in py_strip (py_str exp1))"

definition testcase_preconditions :: "dict \<Rightarrow> string" where
  "testcase_preconditions t =
     (let prec = dget t ''preconditions''
      in py_strip (if prec = JNull then [] else py_str prec))"

definition testcase_body :: "dict \<Rightarrow> string option \<Rightarrow> dict" where
  "testcase_body t0 story_id_fallback =
     (let steps = testcase_steps t0;
          t1 = dset t0 ''steps'' (JList (map JStr steps));
          t2 = dset t1 ''expected'' (JStr (testcase_expected t1));
          t3 = dset t2 ''preconditions'' (JStr (testcase_preconditions t2));
          sid = or_chain [dget t3 ''storyId'', opt_json story_id_fallback] (JStr ''S'');
          sid1 = py_strip (py_str sid);
          storyId = (if sid1 = [] then ''S'' else sid1);
          t4 = dset t3 ''storyId'' (JStr storyId);
          tid = dget t4 ''id'';
          keep = (case tid of JStr i \<Rightarrow> py_strip i \<noteq> [] | _ \<Rightarrow> False)
      in if keep then t4
         else dset t4 ''id'' (JStr (''TC-'' @ storyId @ ''-'' @ int_str (int (max 1 (length steps))))))"

definition normalize_testcase :: "json \<Rightarrow> string option \<Rightarrow> error + dict \<times> bool" where
  "normalize_testcase t story_id_fallback =
     bind_err (py_dict t) (\<lambda>td. Inr (testcase_body (fst td) story_id_fallback, snd td))"

section \<open>The baseline generators\<close>

text \<open>\<^verbatim>\<open>estimate_points\<close>, \<^verbatim>\<open>fib_down\<close> and \<^verbatim>\<open>fib_next_lower\<close> of \<^verbatim>\<open>utils.py\<close>.\<close>

definition estimate_points :: "string \<Rightarrow> int" where
  "estimate_points title =
     (let t = py_lower title
      in if list_ex (\<lambda>k. py_in k t)
              [''auth'', ''login'', ''signup'', ''register'', ''payment'', ''checkout'', ''pdf'',
               ''export'', ''email'']
         then 5
         else if list_ex (\<lambda>k. py_in k t) [''error'', ''retry'', ''timeout'', ''edge'', ''validation'']
         then 3
         else 2)"

definition FIB :: "int list" where
  "FIB = [1, 2, 3, 5, 8, 13]"

fun first_le :: "int \<Rightarrow> int list \<Rightarrow> int" where
  "first_le n [] = 1"
| "first_le n (v # vs) = (if v \<le> n then v else first_le n vs)"

definition fib_down :: "int \<Rightarrow> int" where
  "fib_down n = first_le n (rev FIB)"

text \<open>\<^verbatim>\<open>xs.index(x)\<close> raises \<^verbatim>\<open>ValueError\<close> when \<open>x\<close> is not in the list.\<close>

fun py_index :: "int list \<Rightarrow> int \<Rightarrow> error + nat" where
  "py_index [] x = Inl ValueError"
| "py_index (v # vs) x =
     (if v = x then Inr 0 else (case py_index vs x of Inl e \<Rightarrow> Inl e | Inr i \<Rightarrow> Inr (Suc i)))"

definition fib_next_lower :: "int \<Rightarrow> error + int" where
  "fib_next_lower n =
     bind_err (py_index FIB (fib_down n)) (\<lambda>i. Inr (FIB ! nat (max 0 (int i - 1))))"

definition mk_ac :: "(string \<times> string \<times> string) list \<Rightarrow> GivenWhenThen list" where
  "mk_ac items = map (\<lambda>(g, w, t). \<lparr>gwt_given = g, gwt_when = w, gwt_then = t\<rparr>) items"

text \<open>
  \<^verbatim>\<open>features_to_baseline_stories\<close> (the definition in force, at the end of
  \<^verbatim>\<open>utils.py\<close>). The loop carries the running number \<open>sid\<close>.
\<close>

definition base_title_of :: "Feature \<Rightarrow> string" where
  "base_title_of f = (if feature_title f \<noteq> [] then py_strip (feature_title f) else ''Feature'')"

definition baseline_feature_id :: "Feature \<Rightarrow> string" where
  "baseline_feature_id f =
     (if feature_id f \<noteq> [] then feature_id f
      else case feature_key f of
             Some k \<Rightarrow> if k \<noteq> [] then k else base_title_of f
           | None \<Rightarrow> base_title_of f)"

definition happy_story :: "nat \<Rightarrow> Feature \<Rightarrow> int \<Rightarrow> Story" where
  "happy_story sid f points1 =
     \<lparr>story_id = Some (''S-'' @ fmt_03d sid),
      story_featureId = Some (baseline_feature_id f),
      story_title = base_title_of f @ '': happy path'',
      story_description =
        \<lparr>asA = ''end user'',
         iWant = ''to use '' @ py_lower (base_title_of f) @ '' successfully'',
         soThat = ''I can achieve my goal''\<rparr>,
      story_acceptanceCriteria =
        mk_ac [(''valid inputs'', ''I perform the main action'', ''the system completes it successfully''),
               (''system is available'', ''I retry once'', ''the system responds within 2 seconds'')],
      story_storyPoints = points1\<rparr>"

definition error_story :: "nat \<Rightarrow> Feature \<Rightarrow> int \<Rightarrow> Story" where
  "error_story sid f points2 =
     \<lparr>story_id = Some (''S-'' @ fmt_03d sid),
      story_featureId = Some (baseline_feature_id f),
      story_title = base_title_of f @ '': error handling'',
      story_description =
        \<lparr>asA = ''end user'',
         iWant = ''to see clear errors while using '' @ py_lower (base_title_of f),
         soThat = ''I can recover and proceed''\<rparr>,
      story_acceptanceCriteria =
        mk_ac [(''invalid inputs'', ''I submit the form'', ''I see helpful validation messages''),
               (''a server error occurs'', ''I try again'', ''I see a non-destructive error and can retry'')],
      story_storyPoints = points2\<rparr>"

definition has_description :: "Feature \<Rightarrow> bool" where
  "has_description f =
     (py_strip (case feature_description f of None \<Rightarrow> [] | Some d \<Rightarrow> d) \<noteq> [])"

fun baseline_loop :: "nat \<Rightarrow> Feature list \<Rightarrow> error + Story list" where
  "baseline_loop sid [] = Inr []"
| "baseline_loop sid (f # fs) =
     (let points1 = fib_down (estimate_points (base_title_of f))
      in bind_err (mk_Story (happy_story sid f points1)) (\<lambda>s1.
           if has_description f then
             bind_err (fib_next_lower points1) (\<lambda>points2.
             bind_err (mk_Story (error_story (sid + 1) f points2)) (\<lambda>s2.
             bind_err (baseline_loop (sid + 2) fs) (\<lambda>rest. Inr (s1 # s2 # rest))))
           else bind_err (baseline_loop (sid + 1) fs) (\<lambda>rest. Inr (s1 # rest))))"

definition features_to_baseline_stories :: "Feature list \<Rightarrow> error + Story list" where
  "features_to_baseline_stories features = baseline_loop 1 features"

text \<open>\<^verbatim>\<open>stories_to_baseline_tests\<close>; every field it passes to \<^verbatim>\<open>TestCase\<close> is a string.\<close>

definition baseline_test :: "nat \<Rightarrow> Story \<Rightarrow> TestCase" where
  "baseline_test tid s =
     (let steps = [''Navigate to the area for '' @ [CHR 0x27] @ story_title s @ [CHR 0x27],
                   ''Provide valid inputs (or reproduce described scenario)'',
                   ''Trigger the main action'',
                   ''Observe system response''];
          st = py_lower (story_title s);
          expected =
            (if list_ex (\<lambda>k. py_in k st) [''error'', ''validation'', ''retry'', ''fail'']
             then ''Clear error shown with guidance; user can retry or recover''
             else ''System completes the action successfully without errors'')
      in \<lparr>tc_id = ''T-'' @ fmt_03d tid,
          tc_storyId = (case story_id s of None \<Rightarrow> [] | Some i \<Rightarrow> i),
          tc_preconditions = ''User has access and system is available'',
          tc_steps = steps,
          tc_expected = expected\<rparr>)"

fun tests_loop :: "nat \<Rightarrow> Story list \<Rightarrow> TestCase list" where
  "tests_loop tid [] = []"
| "tests_loop tid (s # ss) = baseline_test tid s # tests_loop (tid + 1) ss"

definition stories_to_baseline_tests :: "Story list \<Rightarrow> TestCase list" where
  "stories_to_baseline_tests stories = tests_loop 1 stories"

section \<open>The generation endpoints\<close>

text \<open>
  The module globals: \<^verbatim>\<open>STATE\<close> with its three lists of dumped records, and the two
  diagnostics. A response is the returned \<^verbatim>\<open>count\<close>, \<^verbatim>\<open>engine\<close> and list.

  What the language model does is not part of the program: an endpoint is given whether a
  client is configured (\<^verbatim>\<open>llm_available()\<close>, fixed when the module is loaded) and the
  outcome of its one call of \<^verbatim>\<open>_gemini_json\<close>, an exception or the parsed JSON value. An
  exception that leaves the endpoint is the \<open>Inl\<close> beside the state it leaves behind.
\<close>

record state =
  STATE_features :: "dict list"
  STATE_stories :: "dict list"
  STATE_tests :: "dict list"
  LAST_AI_ENGINE :: string
  LAST_AI_ERROR :: "error option"

record response =
  resp_count :: nat
  resp_engine :: string
  resp_items :: "dict list"

definition initial_state :: state where
  "initial_state =
     \<lparr>STATE_features = [], STATE_stories = [], STATE_tests = [],
      LAST_AI_ENGINE = ''unknown'', LAST_AI_ERROR = None\<rparr>"

definition as_list :: "json \<Rightarrow> json list" where
  "as_list raw = (case raw of JDict d \<Rightarrow> [raw] | JList xs \<Rightarrow> xs | _ \<Rightarrow> [])"

subsection \<open>\<^verbatim>\<open>generate_stories\<close>\<close>

definition default_feature_id :: "Feature option \<Rightarrow> json" where
  "default_feature_id df =
     (case df of
        Some f \<Rightarrow> or_chain [attr_id f, attr_key f, attr_title f] (JStr ''F'')
      | None \<Rightarrow> JStr ''F'')"

text \<open>One round of the loop over the reply; \<^verbatim>\<open>s.get("id")\<close> needs \<open>s\<close> to be a dict.\<close>

definition story_item :: "Feature option \<Rightarrow> nat \<Rightarrow> json \<Rightarrow> error + Story" where
  "story_item df idx s =
     bind_err (normalize_story s df) (\<lambda>ns.
       case s of
         JDict d \<Rightarrow>
           (let ns1 = dset ns ''id'' (py_or (dget d ''id'') (JStr (''S-'' @ fmt_03d idx)));
                ns2 = (if \<not> truthy (dget ns1 ''featureId'')
                       then dset ns1 ''featureId'' (default_feature_id df) else ns1)
            in validate_story ns2)
       | _ \<Rightarrow> Inl AttributeError)"

fun story_items :: "Feature option \<Rightarrow> nat \<Rightarrow> json list \<Rightarrow> error + Story list" where
  "story_items df idx [] = Inr []"
| "story_items df idx (s # ss) =
     (case story_item df idx s of
        Inl e \<Rightarrow> Inl e
      | Inr x \<Rightarrow> (case story_items df (idx + 1) ss of Inl e \<Rightarrow> Inl e | Inr xs \<Rightarrow> Inr (x # xs)))"

text \<open>\<^verbatim>\<open>features[0] if features else None\<close>.\<close>

definition default_feature :: "Feature list \<Rightarrow> Feature option" where
  "default_feature features = (case features of [] \<Rightarrow> None | f # fs \<Rightarrow> Some f)"

definition respond_stories :: "state \<Rightarrow> Story list \<Rightarrow> state \<times> (error + response)" where
  "respond_stories st stories =
     (let st' = st\<lparr>STATE_stories := map story_dump stories\<rparr>
      in (st', Inr \<lparr>resp_count = length stories, resp_engine = LAST_AI_ENGINE st',
                    resp_items = STATE_stories st'\<rparr>))"

definition baseline_stories_reply :: "state \<Rightarrow> Feature list \<Rightarrow> state \<times> (error + response)" where
  "baseline_stories_reply st features =
     (case features_to_baseline_stories features of
        Inl e \<Rightarrow> (st, Inl e)
      | Inr stories \<Rightarrow> respond_stories st stories)"

definition generate_stories ::
  "bool \<Rightarrow> (error + json) \<Rightarrow> state \<Rightarrow> Feature list \<Rightarrow> state \<times> (error + response)" where
  "generate_stories available reply st features =
     (if \<not> available then
        baseline_stories_reply (st\<lparr>LAST_AI_ENGINE := ''fallback''\<rparr>) features
      else case reply of
             Inl e \<Rightarrow>
               baseline_stories_reply
                 (st\<lparr>LAST_AI_ENGINE := ''fallback'', LAST_AI_ERROR := Some e\<rparr>) features
           | Inr raw \<Rightarrow>
               (let st1 = st\<lparr>LAST_AI_ENGINE := ''gemini'', LAST_AI_ERROR := None\<rparr>
                in case story_items (default_feature features) 1 (as_list raw) of
                     Inl e \<Rightarrow>
                       baseline_stories_reply
                         (st1\<lparr>LAST_AI_ENGINE := ''fallback'', LAST_AI_ERROR := Some e\<rparr>) features
                   | Inr stories \<Rightarrow> respond_stories st1 stories))"

subsection \<open>\<^verbatim>\<open>generate_tests\<close>\<close>

definition respond_tests :: "state \<Rightarrow> TestCase list \<Rightarrow> state \<times> (error + response)" where
  "respond_tests st tests =
     (let st' = st\<lparr>STATE_tests := map testcase_dump tests\<rparr>
      in (st', Inr \<lparr>resp_count = length tests, resp_engine = LAST_AI_ENGINE st',
                    resp_items = STATE_tests st'\<rparr>))"

text \<open>\<^verbatim>\<open>TestCase(**t)\<close>: keyword arguments must have string names.\<close>

definition testcase_item :: "dict \<times> bool \<Rightarrow> error + TestCase" where
  "testcase_item td = (if snd td then Inl TypeError else validate_testcase (fst td))"

text \<open>\<^verbatim>\<open>stories[0].id if stories else "S"\<close>.\<close>

definition story_id_default :: "Story list \<Rightarrow> string option" where
  "story_id_default stories = (case stories of [] \<Rightarrow> Some ''S'' | s # ss \<Rightarrow> story_id s)"

text \<open>All items are normalized first, then each is validated.\<close>

definition testcase_items :: "string option \<Rightarrow> json list \<Rightarrow> error + TestCase list" where
  "testcase_items sid raw =
     bind_err (map_err (\<lambda>t. normalize_testcase t sid) raw) (map_err testcase_item)"

definition generate_tests ::
  "bool \<Rightarrow> (error + json) \<Rightarrow> state \<Rightarrow> Story list \<Rightarrow> state \<times> (error + response)" where
  "generate_tests available reply st stories =
     (if \<not> available then
        respond_tests (st\<lparr>LAST_AI_ENGINE := ''fallback''\<rparr>) (stories_to_baseline_tests stories)
      else case reply of
             Inl e \<Rightarrow>
               respond_tests (st\<lparr>LAST_AI_ENGINE := ''fallback'', LAST_AI_ERROR := Some e\<rparr>)
                 (stories_to_baseline_tests stories)
           | Inr raw \<Rightarrow>
               (let st1 = st\<lparr>LAST_AI_ENGINE := ''gemini''\<rparr>
                in case testcase_items (story_id_default stories) (as_list raw) of
                     Inl e \<Rightarrow>
                       respond_tests (st1\<lparr>LAST_AI_ENGINE := ''fallback'', LAST_AI_ERROR := Some e\<rparr>)
                         (stories_to_baseline_tests stories)
                   | Inr tests \<Rightarrow> respond_tests st1 tests))"

section \<open>Inputs of the scenarios\<close>

text \<open>\<^verbatim>\<open>Feature(title="Login")\<close>: every other field has its default.\<close>

definition login_feature :: Feature where
  "login_feature =
     \<lparr>feature_id = [], feature_key = None, feature_title = ''Login'', feature_description = Some []\<rparr>"

text \<open>
  A reply of two items: the first is a well-formed story, the second has a number where the
  title should be.
\<close>

definition mixed_reply :: "error + json" where
  "mixed_reply = Inr (JList [JDict [(''title'', JStr ''Sign in'')], JDict [(''title'', JInt 5)]])"


text \<open>Replies with entries of the wrong type.\<close>

definition stray_list :: "json list" where
  "stray_list = [JStr ''works'', JInt 5, JNull, JDict [(''given'', JStr ''a user'')]]"

definition stray_criteria :: dict where
  "stray_criteria = [(''title'', JStr ''Reset password''), (''acceptanceCriteria'', JList stray_list)]"

definition numeric_title :: json where
  "numeric_title = JDict [(''title'', JInt 5)]"

definition numeric_role :: json where
  "numeric_role = JDict [(''title'', JStr ''Sign in''), (''description'', JDict [(''asA'', JInt 1)])]"

definition numeric_id :: json where
  "numeric_id = JDict [(''title'', JStr ''Sign in''), (''id'', JInt 7)]"

definition empty_gwt :: dict where
  "empty_gwt = [(''given'', JStr []), (''when'', JStr []), (''then'', JStr [])]"

section \<open>Stories the normalizer leaves alone\<close>

text \<open>
  A string is trimmed when \<^verbatim>\<open>strip\<close> does not change it. A story is settled when its
  feature id, title and the three description fields are non-empty and trimmed, it has at
  least one acceptance criterion, the fields of its criteria are trimmed, and its points are
  allowed. \<open>without_id\<close> is a dumped story less its \<^verbatim>\<open>id\<close> entry, which the normalizer
  leaves to its caller.
\<close>

definition trimmed :: "string \<Rightarrow> bool" where
  "trimmed s = (py_strip s = s)"

definition gwt_trimmed :: "GivenWhenThen \<Rightarrow> bool" where
  "gwt_trimmed g = (trimmed (gwt_given g) \<and> trimmed (gwt_when g) \<and> trimmed (gwt_then g))"

definition story_settled :: "Story \<Rightarrow> bool" where
  "story_settled st =
     ((case story_featureId st of None \<Rightarrow> False | Some f \<Rightarrow> f \<noteq> [] \<and> trimmed f)
      \<and> story_title st \<noteq> [] \<and> trimmed (story_title st)
      \<and> asA (story_description st) \<noteq> [] \<and> trimmed (asA (story_description st))
      \<and> iWant (story_description st) \<noteq> [] \<and> trimmed (iWant (story_description st))
      \<and> soThat (story_description st) \<noteq> [] \<and> trimmed (soThat (story_description st))
      \<and> story_acceptanceCriteria st \<noteq> []
      \<and> list_all gwt_trimmed (story_acceptanceCriteria st)
      \<and> story_storyPoints st \<in> set FIB_ALLOWED)"

definition without_id :: "dict \<Rightarrow> dict" where
  "without_id d = filter (\<lambda>kv. fst kv \<noteq> ''id'') d"

text \<open>Two valid stories: one with a padded title and no criteria, one settled.\<close>

definition padded_story :: Story where
  "padded_story =
     \<lparr>story_id = Some ''S-001'', story_featureId = Some ''F-1'', story_title = ''Login '',
      story_description = \<lparr>asA = ''user'', iWant = ''to log in'', soThat = ''I can work''\<rparr>,
      story_acceptanceCriteria = [], story_storyPoints = 3\<rparr>"

definition settled_story :: Story where
  "settled_story =
     \<lparr>story_id = Some ''S-001'', story_featureId = Some ''F-1'', story_title = ''Login'',
      story_description = \<lparr>asA = ''user'', iWant = ''to log in'', soThat = ''I can work''\<rparr>,
      story_acceptanceCriteria =
        [\<lparr>gwt_given = ''an account'', gwt_when = ''I sign in'', gwt_then = []\<rparr>],
      story_storyPoints = 5\<rparr>"

section \<open>Properties\<close>

subsection \<open>Digits, blanks and the integer reader\<close>

lemma is_digit_digit_char: "d < 10 \<Longrightarrow> is_digit (digit_char d)"
  by (simp add: is_digit_def digit_char_def)

lemma digit_val_digit_char: "d < 10 \<Longrightarrow> digit_val (digit_char d) = int d"
  by (simp add: digit_val_def digit_char_def)

lemma is_digit_not_space: "is_digit c \<Longrightarrow> \<not> py_isspace c"
  by (auto simp add: is_digit_def py_isspace_def Let_def)

lemma is_digit_not_sign: "is_digit c \<Longrightarrow> c \<noteq> CHR ''-'' \<and> c \<noteq> CHR ''+''"
  by (auto simp add: is_digit_def)

lemma nat_digits_all_digits: "list_all is_digit (nat_digits n)"
proof (induction n rule: nat_digits.induct)
  case (1 n)
  show ?case
  proof (cases "n < 10")
    case True
    then show ?thesis by (subst nat_digits.simps) (simp add: is_digit_digit_char)
  next
    case False
    with "1" show ?thesis by (subst nat_digits.simps) (simp add: is_digit_digit_char)
  qed
qed

lemma nat_digits_nonempty: "nat_digits n \<noteq> []"
  by (subst nat_digits.simps) simp

lemma digits_value_snoc: "digits_value (ds @ [c]) = 10 * digits_value ds + digit_val c"
  by (simp add: digits_value_def)

lemma digits_value_nat_digits: "digits_value (nat_digits n) = int n"
proof (induction n rule: nat_digits.induct)
  case (1 n)
  show ?case
  proof (cases "n < 10")
    case True
    then show ?thesis
      by (subst nat_digits.simps) (simp add: digits_value_def digit_val_digit_char)
  next
    case False
    with "1" have "digits_value (nat_digits (n div 10)) = int (n div 10)" by simp
    with False show ?thesis
      by (subst nat_digits.simps) (simp add: digits_value_snoc digit_val_digit_char zdiv_int zmod_int)
  qed
qed

lemma digits_ok_all_digits: "list_all is_digit ds \<Longrightarrow> digits_ok b ds = (b \<or> ds \<noteq> [])"
  by (induction ds arbitrary: b) auto

lemma filter_all_digits: "list_all is_digit ds \<Longrightarrow> filter is_digit ds = ds"
  by (induction ds) auto

lemma py_strip_id:
  assumes "s \<noteq> []" "\<not> py_isspace (hd s)" "\<not> py_isspace (last s)"
  shows "py_strip s = s"
proof -
  from assms have "dropWhile py_isspace s = s" by (cases s) auto
  moreover from assms have "dropWhile py_isspace (rev s) = rev s"
    by (cases "rev s") (auto simp add: last_rev hd_rev)
  ultimately show ?thesis by (simp add: py_strip_def)
qed

lemma py_strip_digits:
  assumes "list_all is_digit ds" "ds \<noteq> []"
  shows "py_strip ds = ds"
proof -
  from assms have "is_digit (hd ds)" "is_digit (last ds)"
    by (auto simp add: list_all_iff)
  with assms show ?thesis by (intro py_strip_id) (auto dest: is_digit_not_space)
qed

lemma py_strip_minus_digits:
  assumes "list_all is_digit ds" "ds \<noteq> []"
  shows "py_strip (CHR ''-'' # ds) = CHR ''-'' # ds"
proof -
  from assms have "is_digit (last ds)" by (auto simp add: list_all_iff)
  with assms show ?thesis
    by (intro py_strip_id) (auto dest: is_digit_not_space simp add: py_isspace_def)
qed

lemma last_dropWhile: "dropWhile P xs \<noteq> [] \<Longrightarrow> last (dropWhile P xs) = last xs"
  by (induction xs) auto

lemma dropWhile_no_head: "xs = [] \<or> \<not> P (hd xs) \<Longrightarrow> dropWhile P xs = xs"
  by (cases xs) auto

lemma py_strip_idem: "py_strip (py_strip s) = py_strip s"
proof -
  let ?t = "dropWhile py_isspace s"
  let ?u = "dropWhile py_isspace (rev ?t)"
  have "rev ?u = [] \<or> \<not> py_isspace (hd (rev ?u))"
  proof (cases "?u = []")
    case True
    then show ?thesis by simp
  next
    case False
    then have "last ?u = last (rev ?t)" by (rule last_dropWhile)
    moreover have "?t \<noteq> []"
    proof
      assume "?t = []"
      then have "?u = []" by (simp only: rev.simps(1) dropWhile.simps(1))
      with False show False by blast
    qed
    ultimately have "hd (rev ?u) = hd ?t" using False by (simp add: hd_rev last_rev)
    moreover from \<open>?t \<noteq> []\<close> have "\<not> py_isspace (hd ?t)" by (rule hd_dropWhile)
    ultimately show ?thesis by simp
  qed
  then have "dropWhile py_isspace (rev ?u) = rev ?u" by (rule dropWhile_no_head)
  then show ?thesis by (simp add: py_strip_def)
qed

lemma py_int_digits:
  assumes "list_all is_digit ds" "ds \<noteq> []" "int (length ds) \<le> max_str_digits"
  shows "py_int ds = Inr (digits_value ds)"
proof -
  obtain c r where cr: "ds = c # r" using assms(2) by (cases ds) auto
  with assms(1) have "is_digit c" by simp
  then have c: "c \<noteq> CHR ''-''" "c \<noteq> CHR ''+''" using is_digit_not_sign by auto
  have ok: "digits_ok False (c # r)" "filter is_digit (c # r) = c # r"
    using assms(1,2) digits_ok_all_digits [of ds False] filter_all_digits [of ds]
    by (simp_all add: cr)
  have st: "py_strip (c # r) = c # r" using py_strip_digits [OF assms(1,2)] by (simp add: cr)
  have len: "int (length (c # r)) \<le> max_str_digits" using assms(3) by (simp add: cr)
  show ?thesis
    unfolding cr
    using c len by (simp add: py_int_def st Let_def ok del: digits_ok.simps filter.simps)
qed

lemma py_int_minus_digits:
  assumes "list_all is_digit ds" "ds \<noteq> []" "int (length ds) \<le> max_str_digits"
  shows "py_int (CHR ''-'' # ds) = Inr (- digits_value ds)"
proof -
  have ok: "digits_ok False ds" "filter is_digit ds = ds"
    using assms(1,2) digits_ok_all_digits [of ds False] filter_all_digits [of ds]
    by simp_all
  have st: "py_strip (CHR ''-'' # ds) = CHR ''-'' # ds"
    by (rule py_strip_minus_digits [OF assms(1,2)])
  show ?thesis
    using assms(3) by (simp add: py_int_def st Let_def ok)
qed

lemma py_int_int_str:
  assumes "int (length (nat_digits (nat \<bar>n\<bar>))) \<le> max_str_digits"
  shows "py_int (py_strip (int_str n)) = Inr n"
proof (cases "n < 0")
  case True
  let ?ds = "nat_digits (nat (- n))"
  have d: "list_all is_digit ?ds" "?ds \<noteq> []"
    by (rule nat_digits_all_digits, rule nat_digits_nonempty)
  have len: "int (length ?ds) \<le> max_str_digits" using assms True by simp
  have "py_strip (int_str n) = CHR ''-'' # ?ds"
    using True py_strip_minus_digits [OF d] by (simp add: int_str_def)
  then show ?thesis
    using True py_int_minus_digits [OF d len] by (simp add: digits_value_nat_digits)
next
  case False
  let ?ds = "nat_digits (nat n)"
  have d: "list_all is_digit ?ds" "?ds \<noteq> []"
    by (rule nat_digits_all_digits, rule nat_digits_nonempty)
  have len: "int (length ?ds) \<le> max_str_digits" using assms False by simp
  have "py_strip (int_str n) = ?ds"
    using False py_strip_digits [OF d] by (simp add: int_str_def)
  then show ?thesis
    using False py_int_digits [OF d len] by (simp add: digits_value_nat_digits)
qed

subsection \<open>The nearest allowed story points\<close>

lemma min_by_in: "min_by n best vs \<in> set (best # vs)"
  by (induction vs arbitrary: best) auto

lemma key_less_trans: "key_less a b \<Longrightarrow> key_less b c \<Longrightarrow> key_less a c"
  by (auto simp add: key_less_def)

lemma min_by_not_above_best: "\<not> key_less (fib_key n best) (fib_key n (min_by n best vs))"
proof (induction vs arbitrary: best)
  case Nil
  then show ?case by (simp add: key_less_def)
next
  case (Cons v vs)
  show ?case
  proof (cases "key_less (fib_key n v) (fib_key n best)")
    case True
    have "\<not> key_less (fib_key n v) (fib_key n (min_by n v vs))" by (rule Cons.IH)
    with True show ?thesis by (auto simp add: key_less_def fib_key_def)
  next
    case False
    then show ?thesis using Cons.IH [of best] by simp
  qed
qed

lemma min_by_least: "a \<in> set (best # vs) \<Longrightarrow> \<not> key_less (fib_key n a) (fib_key n (min_by n best vs))"
proof (induction vs arbitrary: best)
  case Nil
  then show ?case by (simp add: key_less_def)
next
  case (Cons v vs)
  show ?case
  proof (cases "key_less (fib_key n v) (fib_key n best)")
    case True
    note lt = this
    show ?thesis
    proof (cases "a = best")
      case True
      have "\<not> key_less (fib_key n v) (fib_key n (min_by n v vs))" by (rule min_by_not_above_best)
      with lt True show ?thesis by (auto simp add: key_less_def fib_key_def)
    next
      case False
      with Cons.prems have "a \<in> set (v # vs)" by simp
      then show ?thesis using Cons.IH [of v] lt by simp
    qed
  next
    case False
    note nlt = this
    show ?thesis
    proof (cases "a = v")
      case True
      have "\<not> key_less (fib_key n best) (fib_key n (min_by n best vs))" by (rule min_by_not_above_best)
      with nlt True show ?thesis by (auto simp add: key_less_def fib_key_def)
    next
      case False
      with Cons.prems have "a \<in> set (best # vs)" by simp
      then show ?thesis using Cons.IH [of best] nlt by simp
    qed
  qed
qed

lemma nearest_fib_allowed: "nearest_fib n \<in> {1, 2, 3, 5, 8, 13}"
  using min_by_in [of n "hd FIB_ALLOWED" "tl FIB_ALLOWED"]
  by (simp add: nearest_fib_def FIB_ALLOWED_def)

lemma nearest_fib_least:
  assumes "a \<in> {1, 2, 3, 5, 8, 13}"
  shows "\<bar>nearest_fib n - n\<bar> < \<bar>a - n\<bar> \<or> (\<bar>nearest_fib n - n\<bar> = \<bar>a - n\<bar> \<and> nearest_fib n \<le> a)"
proof -
  from assms have "a \<in> set (hd FIB_ALLOWED # tl FIB_ALLOWED)" by (auto simp add: FIB_ALLOWED_def)
  then have "\<not> key_less (fib_key n a) (fib_key n (nearest_fib n))"
    unfolding nearest_fib_def by (rule min_by_least)
  then show ?thesis by (auto simp add: key_less_def fib_key_def)
qed

lemma to_fib_allowed: "to_fib v \<in> {1, 2, 3, 5, 8, 13}"
  using nearest_fib_allowed by (auto simp add: to_fib_def split: sum.splits)

lemma to_fib_malformed: "isl (py_int (py_strip (py_str v))) \<Longrightarrow> to_fib v = 3"
  by (auto simp add: to_fib_def split: sum.splits)

lemma to_fib_parsed: "py_int (py_strip (py_str v)) = Inr m \<Longrightarrow> to_fib v = nearest_fib m"
  by (simp add: to_fib_def)

lemma to_fib_member:
  assumes "n \<in> {1, 2, 3, 5, 8, 13}"
  shows "to_fib (JInt n) = n"
proof -
  have "to_fib (JInt 1) = 1" "to_fib (JInt 2) = 2" "to_fib (JInt 3) = 3"
    "to_fib (JInt 5) = 5" "to_fib (JInt 8) = 8" "to_fib (JInt 13) = 13"
    by code_simp+
  with assms show ?thesis by auto
qed

lemma to_fib_four: "to_fib (JInt 4) = 3"
  by code_simp

lemma to_fib_null: "to_fib JNull = 3"
  by code_simp

text \<open>
  Claim C2. \<^verbatim>\<open>_to_fib\<close> always returns one of 1, 2, 3, 5, 8, 13. An integer of that set is
  returned unchanged. An integer within the interpreter's digit limit prints and reads back
  as itself, and whenever the trimmed text of the input reads as an integer \<open>m\<close>, the result
  is an allowed value nearest to \<open>m\<close> and the lowest among those equally near (so two allowed
  values tied for nearest resolve to the lower one: 4 gives 3). An input whose trimmed text
  does not read as an integer, such as a non-numeric string or \<^verbatim>\<open>None\<close>, gives 3.
\<close>

theorem to_fib_coerces:
  "to_fib v \<in> {1, 2, 3, 5, 8, 13}
   \<and> (n \<in> {1, 2, 3, 5, 8, 13} \<longrightarrow> to_fib (JInt n) = n)
   \<and> (int (length (nat_digits (nat \<bar>n\<bar>))) \<le> max_str_digits \<longrightarrow>
        py_int (py_strip (py_str (JInt n))) = Inr n)
   \<and> (py_int (py_strip (py_str v)) = Inr m \<longrightarrow>
        (\<forall>a \<in> {1, 2, 3, 5, 8, 13}.
           \<bar>to_fib v - m\<bar> < \<bar>a - m\<bar> \<or> (\<bar>to_fib v - m\<bar> = \<bar>a - m\<bar> \<and> to_fib v \<le> a)))
   \<and> to_fib (JInt 4) = 3
   \<and> (isl (py_int (py_strip (py_str v))) \<longrightarrow> to_fib v = 3)
   \<and> to_fib JNull = 3"
proof (intro conjI impI ballI)
  show "to_fib v \<in> {1, 2, 3, 5, 8, 13}" by (rule to_fib_allowed)
  show "to_fib (JInt n) = n" if "n \<in> {1, 2, 3, 5, 8, 13}" using that by (rule to_fib_member)
  show "py_int (py_strip (py_str (JInt n))) = Inr n"
    if "int (length (nat_digits (nat \<bar>n\<bar>))) \<le> max_str_digits"
    using py_int_int_str [OF that] by (simp add: py_str_def)
  show "\<bar>to_fib v - m\<bar> < \<bar>a - m\<bar> \<or> (\<bar>to_fib v - m\<bar> = \<bar>a - m\<bar> \<and> to_fib v \<le> a)"
    if "py_int (py_strip (py_str v)) = Inr m" "a \<in> {1, 2, 3, 5, 8, 13}" for a
    using nearest_fib_least [OF that(2), of m] by (simp add: to_fib_parsed [OF that(1)])
  show "to_fib (JInt 4) = 3" by (rule to_fib_four)
  show "to_fib v = 3" if "isl (py_int (py_strip (py_str v)))" using that by (rule to_fib_malformed)
  show "to_fib JNull = 3" by (rule to_fib_null)
qed

theorem to_fib_coerces_witness:
  "(5::int) \<in> {1, 2, 3, 5, 8, 13} \<and> to_fib (JInt 5) = 5
   \<and> int (length (nat_digits (nat \<bar>5\<bar>))) \<le> max_str_digits
   \<and> py_int (py_strip (py_str (JInt 5))) = Inr 5
   \<and> py_int (py_strip (py_str (JStr '' 4 ''))) = Inr 4
   \<and> (\<bar>to_fib (JStr '' 4 '') - 4\<bar> < \<bar>5 - 4\<bar>
        \<or> (\<bar>to_fib (JStr '' 4 '') - 4\<bar> = \<bar>5 - 4\<bar> \<and> to_fib (JStr '' 4 '') \<le> 5))
   \<and> isl (py_int (py_strip (py_str (JStr ''five''))))
   \<and> to_fib (JStr ''five'') = 3"
proof -
  have h1: "(5::int) \<in> {1, 2, 3, 5, 8, 13}" by simp
  have h2: "int (length (nat_digits (nat \<bar>5\<bar>))) \<le> max_str_digits" by code_simp
  have h3: "py_int (py_strip (py_str (JStr '' 4 ''))) = Inr 4" by code_simp
  have h4: "isl (py_int (py_strip (py_str (JStr ''five''))))" by code_simp
  note a = to_fib_coerces [of "JStr '' 4 ''" 5 4]
  note b = to_fib_coerces [of "JStr ''five''" 5 4]
  note a2 = a [THEN conjunct2, THEN conjunct1, THEN mp, OF h1]
  note a3 = a [THEN conjunct2, THEN conjunct2, THEN conjunct1, THEN mp, OF h2]
  note a4 = a [THEN conjunct2, THEN conjunct2, THEN conjunct2, THEN conjunct1, THEN mp, OF h3,
               THEN bspec, OF h1]
  note b6 = b [THEN conjunct2, THEN conjunct2, THEN conjunct2, THEN conjunct2, THEN conjunct2,
               THEN conjunct1, THEN mp, OF h4]
  show ?thesis
    by (intro conjI) (rule h1 a2 h2 a3 h3 a4 h4 b6)+
qed

subsection \<open>Inputs that are not integer literals\<close>

lemma digits_ok_chars: "digits_ok b s \<Longrightarrow> c \<in> set s \<Longrightarrow> is_digit c \<or> c = CHR ''_''"
  by (induction s arbitrary: b) (auto split: if_splits)

lemma py_int_chars:
  assumes "py_int s = Inr n" "c \<in> set (py_strip s)"
  shows "is_digit c \<or> c = CHR ''_'' \<or> c = CHR ''-'' \<or> c = CHR ''+''"
proof (cases "py_strip s")
  case Nil
  with assms show ?thesis by simp
next
  case (Cons x r)
  show ?thesis
  proof (cases "x = CHR ''-'' \<or> x = CHR ''+''")
    case True
    with assms(1) Cons have "digits_ok False r"
      by (auto simp add: py_int_def Let_def split: if_splits)
    with assms(2) Cons True show ?thesis by (auto dest: digits_ok_chars)
  next
    case False
    with assms(1) Cons have "digits_ok False (x # r)"
      by (auto simp add: py_int_def Let_def split: if_splits)
    with assms(2) Cons show ?thesis using digits_ok_chars by metis
  qed
qed

lemma in_dropWhile: "c \<in> set s \<Longrightarrow> \<not> P c \<Longrightarrow> c \<in> set (dropWhile P s)"
  by (induction s) auto

lemma in_py_strip: "c \<in> set s \<Longrightarrow> \<not> py_isspace c \<Longrightarrow> c \<in> set (py_strip s)"
  by (simp add: py_strip_def in_dropWhile)

lemma py_int_fails:
  assumes "c \<in> set s" "\<not> py_isspace c" "\<not> is_digit c" "c \<noteq> CHR ''_''" "c \<noteq> CHR ''-''" "c \<noteq> CHR ''+''"
  shows "py_int (py_strip s) = Inl ValueError"
proof (cases "py_int (py_strip s)")
  case (Inl e)
  then show ?thesis by (auto simp add: py_int_def Let_def split: if_splits)
next
  case (Inr n)
  from assms(1,2) have "c \<in> set (py_strip (py_strip s))" by (simp add: py_strip_idem in_py_strip)
  with Inr assms(3-) show ?thesis using py_int_chars by blast
qed

lemma float_digits_mark: "CHR ''.'' \<in> set (float_digits neg ds p) \<or> CHR ''e'' \<in> set (float_digits neg ds p)"
  by (simp add: float_digits_def Let_def)

lemma float_str_mark:
  "CHR ''.'' \<in> set (float_str f) \<or> CHR ''e'' \<in> set (float_str f) \<or> CHR ''n'' \<in> set (float_str f)"
  using float_digits_mark by (cases f) auto

lemma py_int_float: "py_int (py_strip (float_str f)) = Inl ValueError"
proof -
  have m: "\<not> py_isspace c \<and> \<not> is_digit c \<and> c \<noteq> CHR ''_'' \<and> c \<noteq> CHR ''-'' \<and> c \<noteq> CHR ''+''"
    if "c = CHR ''.'' \<or> c = CHR ''e'' \<or> c = CHR ''n''" for c
    using that by (auto simp add: py_isspace_def is_digit_def)
  from float_str_mark [of f] obtain c where
    "c \<in> set (float_str f)" "c = CHR ''.'' \<or> c = CHR ''e'' \<or> c = CHR ''n''" by blast
  with m [of c] show ?thesis by (intro py_int_fails [of c]) auto
qed

lemma to_fib_float: "to_fib (JFloat f) = 3"
  by (simp add: to_fib_def py_str_def py_int_float)

text \<open>
  Claim C10. Whenever the trimmed text of the \<^verbatim>\<open>storyPoints\<close> input is not an integer
  literal, \<^verbatim>\<open>_to_fib\<close> returns 3, whatever allowed value lies nearest. Every float is such
  an input, since its text carries a point, an exponent mark or the letters of
  \<^verbatim>\<open>inf\<close>/\<^verbatim>\<open>nan\<close>: 4.7 gives 3, and so does 5.0 although 5 is allowed; the string
  \<^verbatim>\<open>"4.5"\<close> gives 3 as well.
\<close>

theorem to_fib_not_integer_literal:
  "(isl (py_int (py_strip (py_str v))) \<longrightarrow> to_fib v = 3)
   \<and> to_fib (JFloat f) = 3
   \<and> py_str (JFloat (PyFinite False [4, 7] 1)) = ''4.7''
   \<and> to_fib (JFloat (PyFinite False [4, 7] 1)) = 3
   \<and> to_fib (JStr ''4.5'') = 3
   \<and> nearest_fib 5 = 5
   \<and> py_str (JFloat (PyFinite False [5] 1)) = ''5.0''
   \<and> to_fib (JFloat (PyFinite False [5] 1)) = 3"
proof (intro conjI impI)
  show "to_fib v = 3" if "isl (py_int (py_strip (py_str v)))" using that by (rule to_fib_malformed)
  show "py_str (JFloat (PyFinite False [4, 7] 1)) = ''4.7''" by code_simp
  show "to_fib (JStr ''4.5'') = 3" by code_simp
  show "nearest_fib 5 = 5" by code_simp
  show "py_str (JFloat (PyFinite False [5] 1)) = ''5.0''" by code_simp
qed (rule to_fib_float)+

theorem to_fib_not_integer_literal_witness:
  "isl (py_int (py_strip (py_str (JStr ''4.5'')))) \<and> to_fib (JStr ''4.5'') = 3"
proof -
  have h: "isl (py_int (py_strip (py_str (JStr ''4.5''))))" by code_simp
  note a = to_fib_not_integer_literal [of "JStr ''4.5''" PyNaN, THEN conjunct1, THEN mp, OF h]
  show ?thesis by (intro conjI) (rule h a)+
qed

subsection \<open>The baseline story of a login feature\<close>

lemma login_points: "fib_down (estimate_points (py_strip ''Login'')) = 5"
  by code_simp

lemma py_strip_Nil: "py_strip [] = []"
  by (simp add: py_strip_def)

lemma baseline_single_login:
  assumes "feature_title f = ''Login''" "\<not> has_description f"
  shows "features_to_baseline_stories [f] = Inr [happy_story 1 f 5]"
    and "base_title_of f = ''Login''"
proof -
  have t: "py_strip ''Login'' = ''Login''" by code_simp
  show bt: "base_title_of f = ''Login''" using assms(1) by (simp add: base_title_of_def t)
  have p: "fib_down (estimate_points (base_title_of f)) = 5"
    using login_points by (simp only: bt t)
  have "baseline_loop 1 [f] = Inr [happy_story 1 f 5]"
    using assms(2) by (simp add: p mk_Story_def bind_err_def happy_story_def Let_def)
  then show "features_to_baseline_stories [f] = Inr [happy_story 1 f 5]"
    by (simp add: features_to_baseline_stories_def)
qed

lemma login_feature_facts:
  "feature_title login_feature = ''Login''" "\<not> has_description login_feature"
  by (simp_all add: login_feature_def has_description_def py_strip_Nil)

text \<open>
  Claim C8, as amended. For a single feature titled \<^verbatim>\<open>Login\<close> whose description is empty,
  the baseline generator returns exactly one story: \<^verbatim>\<open>S-001\<close>, titled
  \<^verbatim>\<open>Login: happy path\<close>, with two acceptance criteria and 5 story points. The title
  contains the keyword \<^verbatim>\<open>login\<close>, so \<^verbatim>\<open>estimate_points\<close> gives 5, not 2.
\<close>

theorem baseline_login_story:
  assumes "feature_title f = ''Login''" "\<not> has_description f"
  shows "features_to_baseline_stories [f] = Inr [happy_story 1 f 5]
         \<and> story_title (happy_story 1 f 5) = ''Login: happy path''
         \<and> length (story_acceptanceCriteria (happy_story 1 f 5)) = 2
         \<and> story_storyPoints (happy_story 1 f 5) = 5
         \<and> story_id (happy_story 1 f 5) = Some ''S-001''"
proof -
  have i: "fmt_03d (Suc 0) = ''001''" by code_simp
  show ?thesis
    using baseline_single_login [OF assms]
    by (simp add: happy_story_def mk_ac_def i)
qed

theorem baseline_login_story_witness:
  "feature_title login_feature = ''Login'' \<and> \<not> has_description login_feature
   \<and> features_to_baseline_stories [login_feature] = Inr [happy_story 1 login_feature 5]
   \<and> story_title (happy_story 1 login_feature 5) = ''Login: happy path''
   \<and> length (story_acceptanceCriteria (happy_story 1 login_feature 5)) = 2
   \<and> story_storyPoints (happy_story 1 login_feature 5) = 5"
proof -
  note h1 = login_feature_facts(1)
  note h2 = login_feature_facts(2)
  note a = baseline_login_story [OF h1 h2]
  show ?thesis
    by (intro conjI) (rule h1 h2 a [THEN conjunct1] a [THEN conjunct2, THEN conjunct1]
        a [THEN conjunct2, THEN conjunct2, THEN conjunct1]
        a [THEN conjunct2, THEN conjunct2, THEN conjunct2, THEN conjunct1])+
qed

text \<open>
  Claim C8 as stated fails: the one story produced for \<^verbatim>\<open>Feature(title="Login")\<close> does not
  have 2 story points.
\<close>

theorem baseline_login_points_counterexample:
  "features_to_baseline_stories [login_feature] = Inr [happy_story 1 login_feature 5]
   \<and> story_storyPoints (happy_story 1 login_feature 5) \<noteq> 2
   \<and> estimate_points ''Login'' = 5"
proof (intro conjI)
  show "features_to_baseline_stories [login_feature] = Inr [happy_story 1 login_feature 5]"
    by (rule baseline_single_login(1) [OF login_feature_facts])
  show "story_storyPoints (happy_story 1 login_feature 5) \<noteq> 2" by (simp add: happy_story_def)
  show "estimate_points ''Login'' = 5" by code_simp
qed

subsection \<open>The generation endpoints\<close>

lemma fib_down_allowed: "fib_down n \<in> {1, 2, 3, 5, 8, 13}"
  by (simp add: fib_down_def FIB_def)

lemma fib_next_lower_allowed: "\<exists>p. fib_next_lower n = Inr p \<and> p \<in> {1, 2, 3, 5, 8, 13}"
proof -
  have "fib_down n \<in> {1, 2, 3, 5, 8, 13}" by (rule fib_down_allowed)
  then consider "fib_down n = 1" | "fib_down n = 2" | "fib_down n = 3" | "fib_down n = 5"
    | "fib_down n = 8" | "fib_down n = 13" by auto
  then show ?thesis
    by cases (simp_all add: fib_next_lower_def FIB_def bind_err_def)
qed

lemma mk_Story_allowed: "story_storyPoints s \<in> {1, 2, 3, 5, 8, 13} \<Longrightarrow> mk_Story s = Inr s"
  by (simp add: mk_Story_def)

lemma baseline_loop_total: "\<exists>bs. baseline_loop sid fs = Inr bs"
proof (induction fs arbitrary: sid)
  case Nil
  then show ?case by simp
next
  case (Cons f fs)
  let ?p = "fib_down (estimate_points (base_title_of f))"
  have s1: "mk_Story (happy_story sid f ?p) = Inr (happy_story sid f ?p)"
    using fib_down_allowed [of "estimate_points (base_title_of f)"]
    by (intro mk_Story_allowed) (simp add: happy_story_def)
  obtain p2 where p2: "fib_next_lower ?p = Inr p2" "p2 \<in> {1, 2, 3, 5, 8, 13}"
    using fib_next_lower_allowed by blast
  have s2: "mk_Story (error_story (Suc sid) f p2) = Inr (error_story (Suc sid) f p2)"
    using p2(2) by (intro mk_Story_allowed) (simp add: error_story_def)
  obtain r1 where r1: "baseline_loop (Suc sid) fs = Inr r1" using Cons.IH by blast
  obtain r2 where r2: "baseline_loop (Suc (Suc sid)) fs = Inr r2" using Cons.IH by blast
  show ?case
    by (simp add: Let_def s1 s2 p2(1) r1 r2 bind_err_def)
qed

lemma baseline_total: "\<exists>bs. features_to_baseline_stories fs = Inr bs"
  by (simp add: features_to_baseline_stories_def baseline_loop_total)

lemma story_items_fail:
  "i < length xs \<Longrightarrow> isl (story_item df (idx + i) (xs ! i)) \<Longrightarrow> isl (story_items df idx xs)"
proof (induction xs arbitrary: i idx)
  case Nil
  then show ?case by simp
next
  case (Cons x xs)
  show ?case
  proof (cases i)
    case 0
    with Cons.prems show ?thesis by (auto split: sum.splits)
  next
    case (Suc j)
    with Cons.prems have "j < length xs" "isl (story_item df (idx + 1 + j) (xs ! j))" by auto
    then have "isl (story_items df (idx + 1) xs)" by (rule Cons.IH)
    then show ?thesis by (auto split: sum.splits)
  qed
qed




lemma baseline_stories_reply_value:
  assumes "features_to_baseline_stories fs = Inr bs"
  shows "baseline_stories_reply st fs =
           (st\<lparr>STATE_stories := map story_dump bs\<rparr>,
            Inr \<lparr>resp_count = length bs, resp_engine = LAST_AI_ENGINE st,
                 resp_items = map story_dump bs\<rparr>)"
  using assms by (simp add: baseline_stories_reply_def respond_stories_def Let_def)

lemma generate_stories_fallback:
  assumes "\<not> available \<or> isl reply \<or> isl (story_items (default_feature fs) 1 (as_list (projr reply)))"
    and "features_to_baseline_stories fs = Inr bs"
  shows "snd (generate_stories available reply st fs) =
           Inr \<lparr>resp_count = length bs, resp_engine = ''fallback'', resp_items = map story_dump bs\<rparr>"
    and "STATE_stories (fst (generate_stories available reply st fs)) = map story_dump bs"
    and "LAST_AI_ENGINE (fst (generate_stories available reply st fs)) = ''fallback''"
  using assms
  by (auto simp add: generate_stories_def baseline_stories_reply_value Let_def split: sum.splits)



lemma generate_stories_error_recorded:
  assumes "isl reply \<or> isl (story_items (default_feature fs) 1 (as_list (projr reply)))"
  shows "LAST_AI_ERROR (fst (generate_stories True reply st fs)) \<noteq> None"
proof -
  obtain bs where "features_to_baseline_stories fs = Inr bs" using baseline_total by blast
  with assms show ?thesis
    by (auto simp add: generate_stories_def baseline_stories_reply_value Let_def split: sum.splits)
qed

text \<open>
  Claim C3. With a client configured, if the call of the language model or the parsing of
  its reply raises, or if normalizing and validating some item of the reply raises, then
  \<^verbatim>\<open>generate_stories\<close> returns normally and its response is the baseline one: the engine
  is \<^verbatim>\<open>fallback\<close>, the stories returned and stored are exactly the dumps of what
  \<^verbatim>\<open>features_to_baseline_stories\<close> produces for the same features (so none of the
  stories built from the reply is kept), the count is their number, and an error is
  recorded.
\<close>

theorem generate_stories_falls_back:
  assumes "isl reply \<or>
           (\<exists>i<length (as_list (projr reply)).
              isl (story_item (default_feature fs) (Suc i) (as_list (projr reply) ! i)))"
  shows "\<exists>bs. features_to_baseline_stories fs = Inr bs
           \<and> snd (generate_stories True reply st fs) =
               Inr \<lparr>resp_count = length bs, resp_engine = ''fallback'',
                    resp_items = map story_dump bs\<rparr>
           \<and> STATE_stories (fst (generate_stories True reply st fs)) = map story_dump bs
           \<and> LAST_AI_ENGINE (fst (generate_stories True reply st fs)) = ''fallback''
           \<and> LAST_AI_ERROR (fst (generate_stories True reply st fs)) \<noteq> None"
proof -
  obtain bs where bs: "features_to_baseline_stories fs = Inr bs" using baseline_total by blast
  have f: "isl reply \<or> isl (story_items (default_feature fs) 1 (as_list (projr reply)))"
    using assms story_items_fail [of _ "as_list (projr reply)" "default_feature fs" 1] by auto
  then have g: "\<not> True \<or> isl reply \<or> isl (story_items (default_feature fs) 1 (as_list (projr reply)))"
    by simp
  show ?thesis
    using bs generate_stories_fallback [OF g bs, of st] generate_stories_error_recorded [OF f, of st]
    by blast
qed

theorem generate_stories_falls_back_witness:
  "isl (story_item (default_feature [login_feature]) (Suc 1) (as_list (projr mixed_reply) ! 1))
   \<and> snd (generate_stories True mixed_reply initial_state [login_feature]) =
       Inr \<lparr>resp_count = 1, resp_engine = ''fallback'',
            resp_items = map story_dump [happy_story 1 login_feature 5]\<rparr>
   \<and> LAST_AI_ENGINE (fst (generate_stories True mixed_reply initial_state [login_feature])) = ''fallback''"
proof -
  have h: "isl (story_item (default_feature [login_feature]) (Suc 1) (as_list (projr mixed_reply) ! 1))"
    by code_simp
  have l: "(1::nat) < length (as_list (projr mixed_reply))" by code_simp
  from h l have hyp: "isl mixed_reply \<or>
           (\<exists>i<length (as_list (projr mixed_reply)).
              isl (story_item (default_feature [login_feature]) (Suc i) (as_list (projr mixed_reply) ! i)))"
    by blast
  have b: "features_to_baseline_stories [login_feature] = Inr [happy_story 1 login_feature 5]"
    by (rule baseline_single_login(1) [OF login_feature_facts])
  from generate_stories_falls_back [OF hyp, of initial_state] obtain bs where
    bs: "features_to_baseline_stories [login_feature] = Inr bs"
      "snd (generate_stories True mixed_reply initial_state [login_feature]) =
         Inr \<lparr>resp_count = length bs, resp_engine = ''fallback'', resp_items = map story_dump bs\<rparr>"
      "LAST_AI_ENGINE (fst (generate_stories True mixed_reply initial_state [login_feature])) = ''fallback''"
    by blast
  from bs(1) b have "bs = [happy_story 1 login_feature 5]" by simp
  with bs(2,3) h show ?thesis by simp
qed



text \<open>
  Claim C9 at a failing input. A call of \<^verbatim>\<open>generate_stories\<close> whose model call raises
  records the error. A following call of \<^verbatim>\<open>generate_tests\<close> that succeeds sets the
  engine to \<^verbatim>\<open>gemini\<close> and leaves that error in place, whereas a following successful
  call of \<^verbatim>\<open>generate_stories\<close> clears it.
\<close>

theorem stale_error_after_generate_tests:
  "LAST_AI_ERROR (fst (generate_stories True (Inl (CallError ''boom'')) initial_state [])) =
     Some (CallError ''boom'')
   \<and> LAST_AI_ENGINE
        (fst (generate_tests True (Inr (JList []))
               (fst (generate_stories True (Inl (CallError ''boom'')) initial_state [])) [])) =
      ''gemini''
   \<and> LAST_AI_ERROR
        (fst (generate_tests True (Inr (JList []))
               (fst (generate_stories True (Inl (CallError ''boom'')) initial_state [])) [])) =
      Some (CallError ''boom'')
   \<and> LAST_AI_ERROR
        (fst (generate_stories True (Inr (JList []))
               (fst (generate_stories True (Inl (CallError ''boom'')) initial_state [])) [])) =
      None"
  by (simp add: generate_stories_def generate_tests_def respond_stories_def respond_tests_def
      baseline_stories_reply_def features_to_baseline_stories_def
      as_list_def testcase_items_def bind_err_def initial_state_def Let_def)

subsection \<open>The test-case normalizer\<close>
















subsection \<open>The story normalizer\<close>

lemma py_dict_dict: "py_dict (JDict d) = Inr (d, False)"
  by (cases d) (simp_all add: py_dict_def)

lemma normalize_gwt_non_mapping:
  "(case x of JDict d \<Rightarrow> False | _ \<Rightarrow> True) \<Longrightarrow> normalize_gwt x = empty_gwt"
  by (cases x)
     (simp_all add: normalize_gwt_def empty_gwt_def or_chain_def py_or_def dget_def py_str_def Let_def
        py_strip_Nil)

lemma story_criteria_list:
  assumes "dget s ''acceptanceCriteria'' = JList xs" "list_ex (\<lambda>x. x \<noteq> JNull) xs"
  shows "story_criteria s ff = map normalize_gwt (filter (\<lambda>x. x \<noteq> JNull) xs)"
proof -
  from assms(2) have ne: "xs \<noteq> []" "filter (\<lambda>x. x \<noteq> JNull) xs \<noteq> []"
    by (auto simp add: list_ex_iff filter_empty_conv)
  then show ?thesis
    using assms(1) by (simp add: story_criteria_def or_chain_def py_or_def Let_def)
qed

lemma normalize_story_criteria:
  assumes "normalize_story (JDict s) ff = Inr out"
  shows "dget out ''acceptanceCriteria'' = JList (map JDict (story_criteria s ff))"
  using assms
  by (auto simp add: normalize_story_def py_dict_dict bind_err_def Let_def dget_def
      split: sum.splits)

text \<open>
  Claim C7, as amended. When \<^verbatim>\<open>acceptanceCriteria\<close> is a list with an entry other than
  null, the normalized story has one criterion for every entry that is not null, in order:
  only null entries are dropped. An entry that is not a mapping (a string, a number) gives
  the criterion whose three fields are empty.
\<close>

theorem normalize_story_keeps_non_mappings:
  "(normalize_story (JDict s) ff = Inr out \<and> dget s ''acceptanceCriteria'' = JList xs
      \<and> list_ex (\<lambda>x. x \<noteq> JNull) xs
    \<longrightarrow> dget out ''acceptanceCriteria'' =
          JList (map (\<lambda>x. JDict (normalize_gwt x)) (filter (\<lambda>x. x \<noteq> JNull) xs)))
   \<and> ((case x of JDict d \<Rightarrow> False | _ \<Rightarrow> True) \<longrightarrow> normalize_gwt x = empty_gwt)"
  using normalize_story_criteria [of s ff out] story_criteria_list [of s xs ff]
    normalize_gwt_non_mapping [of x]
  by (auto simp add: comp_def)

theorem normalize_story_keeps_non_mappings_witness:
  "normalize_story (JDict stray_criteria) None = Inr (projr (normalize_story (JDict stray_criteria) None))
   \<and> dget stray_criteria ''acceptanceCriteria'' = JList stray_list
   \<and> list_ex (\<lambda>x. x \<noteq> JNull) stray_list
   \<and> dget (projr (normalize_story (JDict stray_criteria) None)) ''acceptanceCriteria'' =
       JList (map (\<lambda>x. JDict (normalize_gwt x)) (filter (\<lambda>x. x \<noteq> JNull) stray_list))
   \<and> normalize_gwt (JInt 5) = empty_gwt"
proof -
  have "\<not> isl (normalize_story (JDict stray_criteria) None)" by code_simp
  then have h1: "normalize_story (JDict stray_criteria) None =
                   Inr (projr (normalize_story (JDict stray_criteria) None))" by simp
  have h2: "dget stray_criteria ''acceptanceCriteria'' = JList stray_list"
    by (simp add: stray_criteria_def dget_def)
  have h3: "list_ex (\<lambda>x. x \<noteq> JNull) stray_list" by (simp add: stray_list_def)
  have h4: "(case JInt 5 of JDict d \<Rightarrow> False | _ \<Rightarrow> True)" by simp
  note t = normalize_story_keeps_non_mappings
             [of stray_criteria None "projr (normalize_story (JDict stray_criteria) None)"
                 stray_list "JInt 5"]
  note a = t [THEN conjunct1, THEN mp, OF conjI [OF h1 conjI [OF h2 h3]]]
  note b = t [THEN conjunct2, THEN mp, OF h4]
  show ?thesis by (intro conjI) (rule h1 h2 h3 a b)+
qed

text \<open>
  Claim C7 as stated fails: of the four entries \<^verbatim>\<open>"works"\<close>, \<^verbatim>\<open>5\<close>, \<^verbatim>\<open>null\<close> and one
  mapping, only the null is dropped; the string and the number each give an empty
  criterion, so the output has three criteria for one mapping entry.
\<close>

theorem non_mappings_not_dropped_counterexample:
  "dget (projr (normalize_story (JDict stray_criteria) None)) ''acceptanceCriteria'' =
     JList [JDict empty_gwt, JDict empty_gwt,
            JDict [(''given'', JStr ''a user''), (''when'', JStr []), (''then'', JStr [])]]
   \<and> length (filter (\<lambda>x. case x of JDict d \<Rightarrow> True | _ \<Rightarrow> False) stray_list) = 1"
  by code_simp

text \<open>
  Claim C1 at failing inputs. A story whose \<^verbatim>\<open>title\<close> is the number 5 makes
  \<^verbatim>\<open>_normalize_story\<close> raise \<^verbatim>\<open>AttributeError\<close> (a number has no \<^verbatim>\<open>strip\<close>), and so does
  a description whose \<^verbatim>\<open>asA\<close> is a number; no mapping is produced. A story whose
  \<^verbatim>\<open>id\<close> is the number 7 is normalized, given that id by the caller, and then fails
  validation. In each case the whole reply is replaced by the baseline stories.
\<close>

theorem normalize_story_raises:
  "normalize_story numeric_title None = Inl AttributeError
   \<and> normalize_story numeric_role None = Inl AttributeError
   \<and> story_item None 1 numeric_id = Inl ValidationError
   \<and> snd (generate_stories True (Inr (JList [numeric_title])) initial_state []) =
       Inr \<lparr>resp_count = 0, resp_engine = ''fallback'', resp_items = []\<rparr>
   \<and> LAST_AI_ERROR (fst (generate_stories True (Inr (JList [numeric_title])) initial_state [])) =
       Some AttributeError
   \<and> LAST_AI_ERROR (fst (generate_stories True (Inr (JList [numeric_id])) initial_state [])) =
       Some ValidationError"
  by code_simp

subsection \<open>Normalizing a valid story\<close>

lemma normalize_gwt_dump:
  assumes "gwt_trimmed g"
  shows "JDict (normalize_gwt (gwt_dump g)) = gwt_dump g"
  using assms
  by (simp add: normalize_gwt_def gwt_dump_def gwt_trimmed_def trimmed_def or_chain_def py_or_def
      dget_def py_str_def Let_def py_strip_Nil)

lemma normalize_gwt_dumps:
  "list_all gwt_trimmed gs \<Longrightarrow> map JDict (map normalize_gwt (map gwt_dump gs)) = map gwt_dump gs"
  by (induction gs) (simp_all add: normalize_gwt_dump)

lemma gwt_dump_not_null: "filter (\<lambda>x. x \<noteq> JNull) (map gwt_dump gs) = map gwt_dump gs"
  by (induction gs) (simp_all add: gwt_dump_def)

lemma story_dump_gets:
  "dget (story_dump st) ''id'' = opt_json (story_id st)"
  "dget (story_dump st) ''featureId'' = opt_json (story_featureId st)"
  "dget (story_dump st) ''title'' = JStr (story_title st)"
  "dget (story_dump st) ''description'' = description_dump (story_description st)"
  "dget (story_dump st) ''acceptanceCriteria'' = JList (map gwt_dump (story_acceptanceCriteria st))"
  "dget (story_dump st) ''storyPoints'' = JInt (story_storyPoints st)"
  by (simp_all add: story_dump_def dget_def)

lemma settled_feature_id:
  assumes "story_settled st"
  shows "\<exists>f. story_featureId st = Some f \<and> f \<noteq> [] \<and> py_strip f = f"
  using assms by (auto simp add: story_settled_def trimmed_def split: option.splits)

lemma settled_story_feature_id:
  assumes "story_settled st"
  shows "py_strip (py_str (story_feature_id (story_dump st) ff)) = the (story_featureId st)"
    and "the (story_featureId st) \<noteq> []"
proof -
  from settled_feature_id [OF assms] obtain f where
    f: "story_featureId st = Some f" "f \<noteq> []" "py_strip f = f" by blast
  then show "py_strip (py_str (story_feature_id (story_dump st) ff)) = the (story_featureId st)"
    by (simp add: story_feature_id_def story_dump_gets opt_json_def or_chain_def py_or_def py_str_def)
  from f show "the (story_featureId st) \<noteq> []" by simp
qed

lemma settled_story_title:
  assumes "story_settled st"
  shows "story_title_of (story_dump st) ff = Inr (story_title st)"
  using assms
  by (simp add: story_settled_def trimmed_def story_title_of_def story_dump_gets py_or_def
      strip_method_def bind_err_def)

lemma settled_story_description:
  assumes "story_settled st"
  shows "story_description_of (story_dump st) ff =
           Inr [(''asA'', JStr (asA (story_description st))),
                (''iWant'', JStr (iWant (story_description st))),
                (''soThat'', JStr (soThat (story_description st)))]"
proof -
  have d: "dget (story_dump st) ''description'' =
             JDict [(''asA'', JStr (asA (story_description st))),
                    (''iWant'', JStr (iWant (story_description st))),
                    (''soThat'', JStr (soThat (story_description st)))]"
    by (simp add: story_dump_gets description_dump_def)
  show ?thesis
    unfolding story_description_of_def d
    using assms
    by (simp add: story_settled_def trimmed_def or_chain_def py_or_def dget_def strip_method_def
        bind_err_def)
qed

lemma settled_story_criteria:
  assumes "story_settled st"
  shows "map JDict (story_criteria (story_dump st) ff) = map gwt_dump (story_acceptanceCriteria st)"
proof -
  from assms have ne: "story_acceptanceCriteria st \<noteq> []"
    and tr: "list_all gwt_trimmed (story_acceptanceCriteria st)"
    by (simp_all add: story_settled_def)
  have "story_criteria (story_dump st) ff = map normalize_gwt (map gwt_dump (story_acceptanceCriteria st))"
    using ne by (simp add: story_criteria_def story_dump_gets or_chain_def py_or_def Let_def
        gwt_dump_not_null)
  then show ?thesis using tr by (simp add: list_all_iff normalize_gwt_dump)
qed

lemma settled_story_points:
  assumes "story_settled st"
  shows "to_fib (dget (story_dump st) ''storyPoints'') = story_storyPoints st"
  using assms to_fib_member [of "story_storyPoints st"]
  by (simp add: story_settled_def story_dump_gets FIB_ALLOWED_def)

lemma normalize_settled:
  assumes "story_settled st"
  shows "normalize_story (JDict (story_dump st)) ff = Inr (without_id (story_dump st))"
proof -
  from settled_feature_id [OF assms] obtain f where f: "story_featureId st = Some f" by blast
  show ?thesis
    using settled_story_feature_id(1) [OF assms, of ff] settled_story_feature_id(2) [OF assms] f
    by (simp add: normalize_story_def py_dict_dict bind_err_def Let_def
        settled_story_title [OF assms] settled_story_description [OF assms]
        settled_story_criteria [OF assms] settled_story_points [OF assms])
       (simp add: story_dump_def without_id_def opt_json_def description_dump_def)
qed

lemma validate_gwt_dump: "validate_gwt (gwt_dump g) = Inr g"
  by (simp add: validate_gwt_def gwt_dump_def dget_def req_str_def bind_err_def)

lemma validate_gwt_dumps: "map_err validate_gwt (map gwt_dump gs) = Inr gs"
  by (induction gs) (simp_all add: validate_gwt_dump)

lemma validate_description_dump: "validate_description (description_dump d) = Inr d"
  by (simp add: validate_description_def description_dump_def dget_def req_str_def bind_err_def)

lemma story_item_settled:
  assumes "story_settled st" "story_id st = Some i" "i \<noteq> []"
  shows "story_item ff idx (JDict (story_dump st)) = Inr st"
proof -
  from settled_feature_id [OF assms(1)] obtain f where
    f: "story_featureId st = Some f" "f \<noteq> []" by blast
  from assms(1) have p: "story_storyPoints st \<in> {1, 2, 3, 5, 8, 13}"
    by (simp add: story_settled_def FIB_ALLOWED_def)
  let ?ns = "without_id (story_dump st) @ [(''id'', JStr i)]"
  have ns: "dset (without_id (story_dump st)) ''id'' (JStr i) = ?ns"
    by (simp add: without_id_def story_dump_def)
  have g: "dget ?ns ''id'' = JStr i" "dget ?ns ''featureId'' = JStr f"
    "dget ?ns ''title'' = JStr (story_title st)"
    "dget ?ns ''description'' = description_dump (story_description st)"
    "dget ?ns ''acceptanceCriteria'' = JList (map gwt_dump (story_acceptanceCriteria st))"
    "dget ?ns ''storyPoints'' = JInt (story_storyPoints st)"
    using f by (simp_all add: without_id_def story_dump_def dget_def opt_json_def)
  have v: "validate_story ?ns = Inr st"
    unfolding validate_story_def g
    using p assms(2) f
    by (simp add: opt_str_def req_str_def validate_description_dump validate_gwt_dumps
        validate_points_def bind_err_def)
  have id: "py_or (dget (story_dump st) ''id'') v = JStr i" for v
    using assms(2,3) by (simp add: story_dump_gets opt_json_def py_or_def)
  show ?thesis
    unfolding story_item_def normalize_settled [OF assms(1)] bind_err_def
    using g(2) f v by (simp add: id ns Let_def)
qed

text \<open>
  Claim C6, as amended. The normalizer returns a settled story unchanged in every field it
  produces: applied to the dump of the story it gives that dump less the \<^verbatim>\<open>id\<close> entry.
  When the story also has a non-empty id, the caller's round (normalize, put the id back,
  validate) gives back the very same record.
\<close>

theorem normalize_story_fixes_settled:
  "(story_settled st \<longrightarrow>
      normalize_story (JDict (story_dump st)) ff = Inr (without_id (story_dump st)))
   \<and> (story_settled st \<and> story_id st = Some i \<and> i \<noteq> [] \<longrightarrow>
      story_item ff idx (JDict (story_dump st)) = Inr st)"
  using normalize_settled [of st ff] story_item_settled [of st i ff idx] by blast

theorem normalize_story_fixes_settled_witness:
  "story_settled settled_story
   \<and> normalize_story (JDict (story_dump settled_story)) None =
       Inr (without_id (story_dump settled_story))
   \<and> story_id settled_story = Some ''S-001'' \<and> ''S-001'' \<noteq> []
   \<and> story_item None 1 (JDict (story_dump settled_story)) = Inr settled_story"
proof -
  have h1: "story_settled settled_story" by code_simp
  have h2: "story_id settled_story = Some ''S-001''" by (simp add: settled_story_def)
  have h3: "''S-001'' \<noteq> []" by simp
  note t = normalize_story_fixes_settled [of settled_story None "''S-001''" 1]
  note a = t [THEN conjunct1, THEN mp, OF h1]
  note b = t [THEN conjunct2, THEN mp, OF conjI [OF h1 conjI [OF h2 h3]]]
  show ?thesis by (intro conjI) (rule h1 a h2 h3 b)+
qed

text \<open>
  Claim C6 as stated fails: a story with the title \<^verbatim>\<open>"Login "\<close> and no acceptance criteria
  passes the schema, yet normalizing it trims the title and adds the two default criteria,
  so the round through the normalizer does not give the record back.
\<close>

theorem normalize_story_not_idempotent_counterexample:
  "validate_story (story_dump padded_story) = Inr padded_story
   \<and> dget (story_dump padded_story) ''title'' = JStr ''Login ''
   \<and> dget (projr (normalize_story (JDict (story_dump padded_story)) None)) ''title'' = JStr ''Login''
   \<and> dget (story_dump padded_story) ''acceptanceCriteria'' = JList []
   \<and> dget (projr (normalize_story (JDict (story_dump padded_story)) None)) ''acceptanceCriteria'' =
       JList [JDict [(''given'', JStr ''valid input''), (''when'', JStr ''I use the feature''),
                     (''then'', JStr ''the system completes successfully'')],
              JDict [(''given'', JStr ''invalid input''), (''when'', JStr ''I use the feature''),
                     (''then'', JStr ''a clear validation message is shown'')]]
   \<and> story_item None 1 (JDict (story_dump padded_story)) \<noteq> Inr padded_story"
  by code_simp

subsection \<open>What the story normalizer returns is valid\<close>

lemma map_err_total:
  "(\<And>x. x \<in> set xs \<Longrightarrow> \<exists>y. f x = Inr y) \<Longrightarrow> \<exists>ys. map_err f xs = Inr ys"
proof (induction xs)
  case Nil
  then show ?case by simp
next
  case (Cons x xs)
  then obtain y where y: "f x = Inr y" by auto
  from Cons obtain ys where "map_err f xs = Inr ys" by auto
  with y show ?case by simp
qed

lemma validate_normalize_gwt: "\<exists>g. validate_gwt (JDict (normalize_gwt x)) = Inr g"
  by (simp add: validate_gwt_def normalize_gwt_def Let_def dget_def req_str_def bind_err_def)

lemma story_criteria_normalized: "c \<in> set (story_criteria s ff) \<Longrightarrow> \<exists>x. c = normalize_gwt x"
  by (auto simp add: story_criteria_def default_criteria_def Let_def split: if_splits)

lemma validate_story_criteria:
  "\<exists>gs. map_err validate_gwt (map JDict (story_criteria s ff)) = Inr gs"
proof (rule map_err_total)
  fix x assume "x \<in> set (map JDict (story_criteria s ff))"
  then obtain c where "c \<in> set (story_criteria s ff)" "x = JDict c" by auto
  then show "\<exists>y. validate_gwt x = Inr y"
    using story_criteria_normalized validate_normalize_gwt by metis
qed

lemma story_description_shape:
  assumes "story_description_of s ff = Inr desc"
  shows "\<exists>a i t. desc = [(''asA'', JStr a), (''iWant'', JStr i), (''soThat'', JStr t)]"
proof (cases "\<exists>d. dget s ''description'' = JDict d")
  case True
  with assms show ?thesis
    by (auto simp add: story_description_of_def bind_err_def split: sum.splits)
next
  case False
  have "\<exists>i. py_or (getattr ff attr_title (JStr [])) (JStr ''use the feature'') = JStr i"
    by (cases ff) (simp_all add: getattr_def attr_title_def py_or_def)
  with False assms show ?thesis
    by (cases "dget s ''description''") (auto simp add: story_description_of_def)
qed

lemma story_title_nonempty:
  assumes "story_title_of s ff = Inr t"
  shows "t \<noteq> []"
proof -
  have "CHR ''I'' \<in> set (py_strip (''Implement '' @ x))" for x
    by (rule in_py_strip) (simp_all add: py_isspace_def)
  then have "py_strip (''Implement '' @ x) \<noteq> []" for x
    by (metis empty_iff empty_set)
  with assms show ?thesis
    by (auto simp add: story_title_of_def bind_err_def split: sum.splits if_splits)
qed

text \<open>
  Whenever \<^verbatim>\<open>_normalize_story\<close> returns, its result with a string id passes
  \<^verbatim>\<open>Story(**ns)\<close>, with a non-empty title and feature id: the only ways out of the
  schema are the exceptions of the normalizer itself and an id that is not a string.
\<close>

lemma normalize_story_validates:
  assumes "normalize_story s ff = Inr out"
  shows "\<exists>st. validate_story (dset out ''id'' (JStr i)) = Inr st \<and> story_id st = Some i
              \<and> story_title st \<noteq> [] \<and> story_featureId st \<noteq> None
              \<and> story_featureId st \<noteq> Some []"
proof -
  from assms obtain sd t desc where
    sd: "py_dict s = Inr sd" and t: "story_title_of (fst sd) ff = Inr t"
    and desc: "story_description_of (fst sd) ff = Inr desc"
    by (auto simp add: normalize_story_def bind_err_def Let_def split: sum.splits)
  define fid where "fid = py_strip (py_str (story_feature_id (fst sd) ff))"
  define fid' where "fid' = (if fid = [] then ''F'' else fid)"
  have out: "out = [(''featureId'', JStr fid'), (''title'', JStr t), (''description'', JDict desc),
                    (''acceptanceCriteria'', JList (map JDict (story_criteria (fst sd) ff))),
                    (''storyPoints'', JInt (to_fib (dget (fst sd) ''storyPoints'')))]"
    using assms sd t desc by (auto simp add: normalize_story_def bind_err_def Let_def fid_def fid'_def)
  from story_description_shape [OF desc] obtain a w b where
    d: "desc = [(''asA'', JStr a), (''iWant'', JStr w), (''soThat'', JStr b)]" by blast
  obtain gs where gs: "map_err validate_gwt (map JDict (story_criteria (fst sd) ff)) = Inr gs"
    using validate_story_criteria by blast
  have p: "to_fib (dget (fst sd) ''storyPoints'') \<in> {1, 2, 3, 5, 8, 13}" by (rule to_fib_allowed)
  have f: "fid' \<noteq> []" by (simp add: fid'_def)
  have "validate_story (dset out ''id'' (JStr i)) =
          Inr \<lparr>story_id = Some i, story_featureId = Some fid', story_title = t,
               story_description = \<lparr>asA = a, iWant = w, soThat = b\<rparr>,
               story_acceptanceCriteria = gs,
               story_storyPoints = to_fib (dget (fst sd) ''storyPoints'')\<rparr>"
    using p gs
    by (simp add: out d validate_story_def dget_def opt_str_def req_str_def
        validate_description_def validate_points_def bind_err_def)
  with f story_title_nonempty [OF t] show ?thesis by simp
qed

end
